theory Spec2Isabelle
  imports Complex_Main
begin

section \<open>Node features of scip-dagger (feat.c)\<close>

text \<open>
  A shallow embedding of \<^verbatim>\<open>src/feat.c\<close>: the feature vector \<^verbatim>\<open>SCIP_FEAT\<close>, its copy
  operation and setters, the feature calculation \<^verbatim>\<open>SCIPcalcNodeselFeat\<close>, the libsvm
  writers and the index offset.

  Conventions of the model.
  \<^item> A C \<^verbatim>\<open>int\<close> is an \<^typ>\<open>int\<close>. Signed overflow is undefined in C and has no value to
    model; the model describes the runs in which every \<^verbatim>\<open>int\<close> result is representable.
    Integer division truncates towards zero, and a zero divisor is the error
    \<open>DivisionByZero\<close>.
  \<^item> A \<^verbatim>\<open>SCIP_Real\<close> (a C \<^verbatim>\<open>double\<close>) is a real number or one of the IEEE specials
    (the infinities and NaN) that a division by zero produces. Rounding and the sign of
    zero are outside the model: finite arithmetic is exact.
  \<^item> Pointers are addresses into an explicit store, which holds the \<^verbatim>\<open>SCIP_FEAT\<close>
    structs and, separately, the arrays their \<^verbatim>\<open>vals\<close> fields point to.
  \<^item> A failing \<^verbatim>\<open>assert\<close> is the error \<open>AssertionFailed\<close>; reading or writing through a
    dangling pointer or outside an array is the error \<open>InvalidAccess\<close>.
\<close>

subsection \<open>Errors\<close>

datatype error = AssertionFailed | InvalidAccess | DivisionByZero

subsection \<open>Numbers\<close>

datatype SCIP_Real = Fin real | PInf | NInf | NaN

text \<open>Division of two finite doubles, \<^verbatim>\<open>a / b\<close>.\<close>

definition ddiv :: "real \<Rightarrow> real \<Rightarrow> SCIP_Real" where
  "ddiv a b =
     (if b \<noteq> 0 then Fin (a / b)
      else if 0 < a then PInf
      else if a < 0 then NInf
      else NaN)"

text \<open>Unary minus, \<^verbatim>\<open>-x\<close>.\<close>

fun dneg :: "SCIP_Real \<Rightarrow> SCIP_Real" where
  "dneg (Fin x) = Fin (- x)"
| "dneg PInf = NInf"
| "dneg NInf = PInf"
| "dneg NaN = NaN"

text \<open>Subtraction, \<^verbatim>\<open>x - y\<close>.\<close>

fun dsub :: "SCIP_Real \<Rightarrow> SCIP_Real \<Rightarrow> SCIP_Real" where
  "dsub NaN y = NaN"
| "dsub x NaN = NaN"
| "dsub (Fin x) (Fin y) = Fin (x - y)"
| "dsub (Fin x) PInf = NInf"
| "dsub (Fin x) NInf = PInf"
| "dsub PInf PInf = NaN"
| "dsub PInf y = PInf"
| "dsub NInf NInf = NaN"
| "dsub NInf y = NInf"

text \<open>Conversion of a finite double to \<^verbatim>\<open>int\<close>: the fractional part is discarded.\<close>

definition double_to_int :: "real \<Rightarrow> int" where
  "double_to_int r = (if 0 \<le> r then \<lfloor>r\<rfloor> else \<lceil>r\<rceil>)"

text \<open>Integer division of C, \<^verbatim>\<open>a / b\<close>: the quotient is truncated towards zero, and
  a zero divisor has no quotient.\<close>

definition truncated_quotient :: "int \<Rightarrow> int \<Rightarrow> int" where
  "truncated_quotient a b =
     (if (a < 0) = (b < 0) then \<bar>a\<bar> div \<bar>b\<bar> else - (\<bar>a\<bar> div \<bar>b\<bar>))"

definition c_div :: "int \<Rightarrow> int \<Rightarrow> error + int" where
  "c_div a b = (if b = 0 then Inl DivisionByZero else Inr (truncated_quotient a b))"

subsection \<open>The feature vector and the store\<close>

type_synonym addr = nat

definition NULL :: addr where
  "NULL = 0"

text \<open>
  \<^verbatim>\<open>struct SCIP_Feat\<close> is declared in \<^verbatim>\<open>struct_feat.h\<close>; the fields are those that
  \<^verbatim>\<open>feat.c\<close> reads and writes. \<open>boundtype\<close> holds a \<^verbatim>\<open>SCIP_BOUNDTYPE\<close>, kept as the
  integer that the cast \<^verbatim>\<open>(int)feat->boundtype\<close> yields.
\<close>

record SCIP_FEAT =
  vals :: addr
  rootlpobj :: SCIP_Real
  sumobjcoeff :: SCIP_Real
  nconstrs :: int
  maxdepth :: int
  depth :: int
  size_feat :: int
  boundtype :: int

record heap =
  feats :: "addr \<rightharpoonup> SCIP_FEAT"
  arrays :: "addr \<rightharpoonup> SCIP_Real list"

text \<open>\<^verbatim>\<open>feat->vals[i]\<close> as a value.\<close>

definition vals_load :: "heap \<Rightarrow> addr \<Rightarrow> int \<Rightarrow> error + SCIP_Real" where
  "vals_load h feat i =
     (case feats h feat of
        None \<Rightarrow> Inl InvalidAccess
      | Some f \<Rightarrow>
          (case arrays h (vals f) of
             None \<Rightarrow> Inl InvalidAccess
           | Some xs \<Rightarrow>
               if 0 \<le> i \<and> i < int (length xs) then Inr (xs ! nat i)
               else Inl InvalidAccess))"

text \<open>The assignment \<^verbatim>\<open>feat->vals[i] = v\<close>.\<close>

definition vals_store :: "addr \<Rightarrow> int \<Rightarrow> SCIP_Real \<Rightarrow> heap \<Rightarrow> error + heap" where
  "vals_store feat i v h =
     (case feats h feat of
        None \<Rightarrow> Inl InvalidAccess
      | Some f \<Rightarrow>
          (case arrays h (vals f) of
             None \<Rightarrow> Inl InvalidAccess
           | Some xs \<Rightarrow>
               if 0 \<le> i \<and> i < int (length xs)
               then Inr (h\<lparr>arrays := (arrays h)(vals f \<mapsto> xs[nat i := v])\<rparr>)
               else Inl InvalidAccess))"

subsection \<open>Simple functions\<close>

definition SCIPfeatGetSize :: "heap \<Rightarrow> addr \<Rightarrow> error + int" where
  "SCIPfeatGetSize h feat =
     (if feat = NULL then Inl AssertionFailed
      else case feats h feat of
        None \<Rightarrow> Inl InvalidAccess
      | Some f \<Rightarrow> Inr (size_feat f))"

definition SCIPfeatGetOffset :: "heap \<Rightarrow> addr \<Rightarrow> error + int" where
  "SCIPfeatGetOffset h feat =
     (if feat = NULL then Inl AssertionFailed
      else case feats h feat of
        None \<Rightarrow> Inl InvalidAccess
      | Some f \<Rightarrow>
          (case c_div (maxdepth f) 10 of
             Inl e \<Rightarrow> Inl e
           | Inr d \<Rightarrow>
               (case c_div (depth f) d of
                  Inl e \<Rightarrow> Inl e
                | Inr q \<Rightarrow> Inr ((size_feat f * 2) * q + size_feat f * boundtype f))))"

definition SCIPfeatGetVals :: "heap \<Rightarrow> addr \<Rightarrow> error + addr" where
  "SCIPfeatGetVals h feat =
     (if feat = NULL then Inl AssertionFailed
      else case feats h feat of
        None \<Rightarrow> Inl InvalidAccess
      | Some f \<Rightarrow> Inr (vals f))"

text \<open>An assignment to fields of \<^verbatim>\<open>*feat\<close>.\<close>

definition feat_assign :: "addr \<Rightarrow> (SCIP_FEAT \<Rightarrow> SCIP_FEAT) \<Rightarrow> heap \<Rightarrow> error + heap" where
  "feat_assign feat upd h =
     (case feats h feat of
        None \<Rightarrow> Inl InvalidAccess
      | Some f \<Rightarrow> Inr (h\<lparr>feats := (feats h)(feat \<mapsto> upd f)\<rparr>))"

definition SCIPfeatSetRootlpObj :: "addr \<Rightarrow> SCIP_Real \<Rightarrow> heap \<Rightarrow> error + heap" where
  "SCIPfeatSetRootlpObj feat v h =
     (if feat = NULL then Inl AssertionFailed
      else feat_assign feat (\<lambda>f. f\<lparr>rootlpobj := v\<rparr>) h)"

definition SCIPfeatSetSumObjCoeff :: "addr \<Rightarrow> SCIP_Real \<Rightarrow> heap \<Rightarrow> error + heap" where
  "SCIPfeatSetSumObjCoeff feat v h =
     (if feat = NULL then Inl AssertionFailed
      else feat_assign feat (\<lambda>f. f\<lparr>sumobjcoeff := v\<rparr>) h)"

definition SCIPfeatSetMaxDepth :: "addr \<Rightarrow> int \<Rightarrow> heap \<Rightarrow> error + heap" where
  "SCIPfeatSetMaxDepth feat v h =
     (if feat = NULL then Inl AssertionFailed
      else feat_assign feat (\<lambda>f. f\<lparr>maxdepth := v\<rparr>) h)"

definition SCIPfeatSetNConstrs :: "addr \<Rightarrow> int \<Rightarrow> heap \<Rightarrow> error + heap" where
  "SCIPfeatSetNConstrs feat v h =
     (if feat = NULL then Inl AssertionFailed
      else feat_assign feat (\<lambda>f. f\<lparr>nconstrs := v\<rparr>) h)"

subsection \<open>Copy\<close>

text \<open>
  The loop \<^verbatim>\<open>for( i = 0; i < feat->size; i++ ) sourcefeat->vals[i] = feat->vals[i];\<close>
  entered with the counter at \<open>i\<close>. Every iteration reads \<^verbatim>\<open>feat->size\<close> and both
  \<^verbatim>\<open>vals\<close> pointers from the store again.
\<close>

function copy_loop :: "addr \<Rightarrow> addr \<Rightarrow> int \<Rightarrow> heap \<Rightarrow> error + heap" where
  "copy_loop feat sourcefeat i h =
     (case feats h feat of
        None \<Rightarrow> Inl InvalidAccess
      | Some f \<Rightarrow>
          if i < size_feat f then
            (case vals_load h feat i of
               Inl e \<Rightarrow> Inl e
             | Inr v \<Rightarrow>
                 (case vals_store sourcefeat i v h of
                    Inl e \<Rightarrow> Inl e
                  | Inr h' \<Rightarrow> copy_loop feat sourcefeat (i + 1) h'))
          else Inr h)"
  by pat_completeness auto
termination
proof (relation "measure (\<lambda>(feat, sourcefeat, i, h).
    case feats h feat of None \<Rightarrow> 0 | Some f \<Rightarrow> nat (size_feat f - i))")
  show "wf (measure (\<lambda>(feat, sourcefeat, i, h).
    case feats h feat of None \<Rightarrow> 0 | Some f \<Rightarrow> nat (size_feat f - i)))"
    by simp
next
  fix feat sourcefeat :: addr and i :: int and h h' :: heap and f v
  assume f: "feats h feat = Some f" and lt: "i < size_feat f"
    and st: "vals_store sourcefeat i v h = Inr h'"
  from st have "feats h' = feats h"
    by (auto simp: vals_store_def split: option.splits if_splits)
  with f lt show "((feat, sourcefeat, i + 1, h'), (feat, sourcefeat, i, h))
    \<in> measure (\<lambda>(feat, sourcefeat, i, h).
        case feats h feat of None \<Rightarrow> 0 | Some f \<Rightarrow> nat (size_feat f - i))"
    by simp
qed

declare copy_loop.simps [simp del]

text \<open>
  \<^verbatim>\<open>SCIPfeatCopy(feat, sourcefeat)\<close>: the seven scalar assignments
  \<^verbatim>\<open>sourcefeat->x = feat->x\<close>, then the loop over the values.
\<close>

definition SCIPfeatCopy :: "addr \<Rightarrow> addr \<Rightarrow> heap \<Rightarrow> error + heap" where
  "SCIPfeatCopy feat sourcefeat h =
     (if feat = NULL then Inl AssertionFailed
      else case feats h feat of
        None \<Rightarrow> Inl InvalidAccess
      | Some f \<Rightarrow>
          if vals f = NULL then Inl AssertionFailed
          else if sourcefeat = NULL then Inl AssertionFailed
          else
            (case feats h sourcefeat of
               None \<Rightarrow> Inl InvalidAccess
             | Some g \<Rightarrow>
                 if vals g = NULL then Inl AssertionFailed
                 else
                   (case feat_assign sourcefeat
                           (\<lambda>g. g\<lparr>maxdepth := maxdepth f, depth := depth f,
                                  size_feat := size_feat f, boundtype := boundtype f,
                                  rootlpobj := rootlpobj f, sumobjcoeff := sumobjcoeff f,
                                  nconstrs := nconstrs f\<rparr>) h of
                      Inl e \<Rightarrow> Inl e
                    | Inr h1 \<Rightarrow> copy_loop feat sourcefeat 0 h1)))"

subsection \<open>What the feature calculation reads from SCIP\<close>

text \<open>
  Modelled from the spec: the enumerations \<^verbatim>\<open>SCIP_NODETYPE\<close>, \<^verbatim>\<open>SCIP_BRANCHDIR\<close> and
  \<^verbatim>\<open>SCIP_BOUNDCHGTYPE\<close> are declared in SCIP's headers, which are not among the sources.
  Each has the values that \<^verbatim>\<open>feat.c\<close> names and one more that stands for all the others
  (the spec: a node type is one of sibling, child, leaf, ...; a preferred branch direction
  may be unspecified; a bound change is of branching type or not).
\<close>

datatype SCIP_NODETYPE =
  SCIP_NODETYPE_SIBLING | SCIP_NODETYPE_CHILD | SCIP_NODETYPE_LEAF | SCIP_NODETYPE_OTHER

datatype SCIP_BRANCHDIR =
  SCIP_BRANCHDIR_DOWNWARDS | SCIP_BRANCHDIR_UPWARDS | SCIP_BRANCHDIR_OTHER

datatype SCIP_BOUNDCHGTYPE =
  SCIP_BOUNDCHGTYPE_BRANCHING | SCIP_BOUNDCHGTYPE_OTHER

text \<open>
  The slots of the value array that \<^verbatim>\<open>SCIPcalcNodeselFeat\<close> names. Their numbers are
  declared in a header that is not among the sources; the calculation takes them as the
  parameter \<open>FEATNODESEL\<close> below.
\<close>

datatype SCIP_FEATNODESEL =
  SCIP_FEATNODESEL_LOWERBOUND
| SCIP_FEATNODESEL_ESTIMATE
| SCIP_FEATNODESEL_RELATIVEBOUND
| SCIP_FEATNODESEL_TYPE_SIBLING
| SCIP_FEATNODESEL_TYPE_CHILD
| SCIP_FEATNODESEL_TYPE_LEAF
| SCIP_FEATNODESEL_BRANCHVAR_OBJCONSTR
| SCIP_FEATNODESEL_BRANCHVAR_BOUNDLPDIFF
| SCIP_FEATNODESEL_BRANCHVAR_ROOTLPDIFF
| SCIP_FEATNODESEL_BRANCHVAR_PRIO_DOWN
| SCIP_FEATNODESEL_BRANCHVAR_PRIO_UP
| SCIP_FEATNODESEL_BRANCHVAR_PSEUDOCOST
| SCIP_FEATNODESEL_BRANCHVAR_INF

record extern_consts =
  FEATNODESEL :: "SCIP_FEATNODESEL \<Rightarrow> int"
  SCIP_BOUNDTYPE_LOWER :: int

text \<open>
  The SCIP objects, as the values their accessors return. The accessors return finite
  numbers (SCIP's infinity is the finite double \<^verbatim>\<open>1e+20\<close>), hence \<^typ>\<open>real\<close>.
  \<open>varGetSol\<close> takes the flag \<^verbatim>\<open>haslp\<close>, \<open>varGetPseudocost\<close> the bound delta and
  \<open>varGetAvgInferences\<close> the direction; the statistics \<^verbatim>\<open>scip->stat\<close> they also take are
  fixed during the call.
\<close>

record SCIP_COL =
  colGetObj :: real
  colGetNNonz :: int

record SCIP_VAR =
  varGetBranchDirection :: SCIP_BRANCHDIR
  varGetCol :: SCIP_COL
  varGetSol :: "bool \<Rightarrow> real"
  varGetRootSol :: real
  varGetPseudocost :: "real \<Rightarrow> real"
  varGetAvgInferences :: "SCIP_BRANCHDIR \<Rightarrow> real"

record SCIP_BOUNDCHG =
  boundchg_var :: SCIP_VAR
  boundchg_newbound :: real
  boundchg_boundchgtype :: SCIP_BOUNDCHGTYPE
  boundchg_boundtype :: int

text \<open>\<open>node_boundchgs\<close> is the pointer \<^verbatim>\<open>node->domchg->domchgbound.boundchgs\<close>:
  \<open>None\<close> when it is null, the array it points to otherwise.\<close>

record SCIP_NODE =
  nodeGetType :: SCIP_NODETYPE
  nodeGetDepth :: int
  nodeGetLowerbound :: real
  nodeGetEstimate :: real
  node_boundchgs :: "SCIP_BOUNDCHG list option"

record SCIP =
  getLowerboundRoot :: real
  getLowerbound :: real
  getCutoffbound :: real
  getNSolsFound :: int
  treeHasFocusNodeLP :: bool

subsection \<open>Feature calculation\<close>

text \<open>The local \<^verbatim>\<open>rootlowerbound\<close> after lines 122 to 124.\<close>

definition rootlowerbound :: "SCIP \<Rightarrow> real" where
  "rootlowerbound scip =
     (if getLowerboundRoot scip = 0 then 0.1 else getLowerboundRoot scip)"

text \<open>The local \<^verbatim>\<open>cutoffbound\<close> after lines 126 to 128.\<close>

definition cutoffbound :: "SCIP \<Rightarrow> real" where
  "cutoffbound scip =
     (if getNSolsFound scip = 0
      then getLowerbound scip + 0.2 * (getCutoffbound scip - getLowerbound scip)
      else getCutoffbound scip)"

text \<open>The local \<^verbatim>\<open>int varcolsize\<close> after lines 136 to 138: the assignment of \<^verbatim>\<open>0.1\<close>
  converts the double to \<^verbatim>\<open>int\<close>.\<close>

definition varcolsize :: "SCIP_COL \<Rightarrow> int" where
  "varcolsize branchvarcol =
     (if colGetNNonz branchvarcol = 0 then double_to_int 0.1
      else colGetNNonz branchvarcol)"

text \<open>
  The assignments to \<^verbatim>\<open>feat->vals[...]\<close> of lines 148 to 178 that a call executes, in
  the order of the source: the slot and the value assigned. \<open>bt\<close> and \<open>md\<close> are
  \<^verbatim>\<open>feat->boundtype\<close> and \<^verbatim>\<open>feat->maxdepth\<close> at that point.
\<close>

definition nodesel_assignments ::
  "extern_consts \<Rightarrow> SCIP \<Rightarrow> SCIP_NODE \<Rightarrow> SCIP_BOUNDCHG \<Rightarrow> int \<Rightarrow> int
    \<Rightarrow> (SCIP_FEATNODESEL \<times> SCIP_Real) list" where
  "nodesel_assignments K scip node boundchg bt md =
     (let nodetype = nodeGetType node;
          nodelowerbound = nodeGetLowerbound node;
          lowerbound = getLowerbound scip;
          branchvar = boundchg_var boundchg;
          branchbound = boundchg_newbound boundchg;
          branchdirpreferred = varGetBranchDirection branchvar;
          branchvarcol = varGetCol branchvar;
          varobj = colGetObj branchvarcol;
          haslp = treeHasFocusNodeLP scip;
          varsol = varGetSol branchvar haslp;
          varrootsol = varGetRootSol branchvar
      in
        [(SCIP_FEATNODESEL_LOWERBOUND, ddiv nodelowerbound (rootlowerbound scip)),
         (SCIP_FEATNODESEL_ESTIMATE, ddiv (nodeGetEstimate node) (rootlowerbound scip))]
        @ (if cutoffbound scip - lowerbound \<noteq> 0
           then [(SCIP_FEATNODESEL_RELATIVEBOUND,
                  ddiv (nodelowerbound - lowerbound) (cutoffbound scip - lowerbound))]
           else [])
        @ (if nodetype = SCIP_NODETYPE_SIBLING then [(SCIP_FEATNODESEL_TYPE_SIBLING, Fin 1)]
           else if nodetype = SCIP_NODETYPE_CHILD then [(SCIP_FEATNODESEL_TYPE_CHILD, Fin 1)]
           else if nodetype = SCIP_NODETYPE_LEAF then [(SCIP_FEATNODESEL_TYPE_LEAF, Fin 1)]
           else [])
        @ [(SCIP_FEATNODESEL_BRANCHVAR_OBJCONSTR,
            ddiv varobj (real_of_int (varcolsize branchvarcol))),
           (SCIP_FEATNODESEL_BRANCHVAR_BOUNDLPDIFF, Fin (branchbound - varsol)),
           (SCIP_FEATNODESEL_BRANCHVAR_ROOTLPDIFF, Fin (varrootsol - varsol))]
        @ (if branchdirpreferred = SCIP_BRANCHDIR_DOWNWARDS
           then [(SCIP_FEATNODESEL_BRANCHVAR_PRIO_DOWN, Fin 1)]
           else if branchdirpreferred = SCIP_BRANCHDIR_UPWARDS
           then [(SCIP_FEATNODESEL_BRANCHVAR_PRIO_UP, Fin 1)]
           else [])
        @ [(SCIP_FEATNODESEL_BRANCHVAR_PSEUDOCOST,
            ddiv (varGetPseudocost branchvar (branchbound - varsol)) \<bar>varobj\<bar>),
           (SCIP_FEATNODESEL_BRANCHVAR_INF,
            if bt = SCIP_BOUNDTYPE_LOWER K
            then ddiv (varGetAvgInferences branchvar SCIP_BRANCHDIR_UPWARDS) (real_of_int md)
            else ddiv (varGetAvgInferences branchvar SCIP_BRANCHDIR_DOWNWARDS) (real_of_int md))])"

text \<open>The assignments, executed one after the other.\<close>

fun store_assignments ::
  "extern_consts \<Rightarrow> addr \<Rightarrow> (SCIP_FEATNODESEL \<times> SCIP_Real) list \<Rightarrow> heap \<Rightarrow> error + heap" where
  "store_assignments K feat [] h = Inr h"
| "store_assignments K feat ((s, v) # as) h =
     (case vals_store feat (FEATNODESEL K s) v h of
        Inl e \<Rightarrow> Inl e
      | Inr h' \<Rightarrow> store_assignments K feat as h')"

definition SCIPcalcNodeselFeat ::
  "extern_consts \<Rightarrow> SCIP \<Rightarrow> SCIP_NODE \<Rightarrow> addr \<Rightarrow> heap \<Rightarrow> error + heap" where
  "SCIPcalcNodeselFeat K scip node feat h =
     (if nodeGetDepth node = 0 then Inl AssertionFailed
      else if feat = NULL then Inl AssertionFailed
      else case feats h feat of
        None \<Rightarrow> Inl InvalidAccess
      | Some f \<Rightarrow>
          if maxdepth f = 0 then Inl AssertionFailed
          else
            (case node_boundchgs node of
               None \<Rightarrow> Inl AssertionFailed
             | Some [] \<Rightarrow> Inl InvalidAccess
             | Some (boundchg # _) \<Rightarrow>
                 if boundchg_boundchgtype boundchg \<noteq> SCIP_BOUNDCHGTYPE_BRANCHING
                 then Inl AssertionFailed
                 else
                   (case feat_assign feat
                           (\<lambda>f. f\<lparr>depth := nodeGetDepth node,
                                  boundtype := boundchg_boundtype boundchg\<rparr>) h of
                      Inl e \<Rightarrow> Inl e
                    | Inr h1 \<Rightarrow>
                        store_assignments K feat
                          (nodesel_assignments K scip node boundchg
                             (boundchg_boundtype boundchg) (maxdepth f))
                          h1)))"

subsection \<open>Writing in libsvm format\<close>

text \<open>
  \<^verbatim>\<open>SCIPinfoMessage\<close> is SCIP's; a call of it is recorded as the format string and the
  arguments it is given, and what a writer prints is the list of its calls.
\<close>

datatype fmt_arg = ArgInt int | ArgReal SCIP_Real

type_synonym message = "string \<times> fmt_arg list"

text \<open>
  A loop \<^verbatim>\<open>for( i = 0; i < size; i++ ) SCIPinfoMessage(scip, file, "%d:%f ", i + offset + 1, v)\<close>
  entered with the counter at \<open>i\<close>, where \<open>body i\<close> evaluates \<^verbatim>\<open>v\<close>.
\<close>

function print_loop ::
  "int \<Rightarrow> int \<Rightarrow> int \<Rightarrow> (int \<Rightarrow> error + SCIP_Real) \<Rightarrow> error + message list" where
  "print_loop i n offset body =
     (if i < n then
        (case body i of
           Inl e \<Rightarrow> Inl e
         | Inr v \<Rightarrow>
             (case print_loop (i + 1) n offset body of
                Inl e \<Rightarrow> Inl e
              | Inr ms \<Rightarrow> Inr ((''%d:%f '', [ArgInt (i + offset + 1), ArgReal v]) # ms)))
      else Inr [])"
  by pat_completeness auto
termination
  by (relation "measure (\<lambda>(i, n, offset, body). nat (n - i))") auto

declare print_loop.simps [simp del]

text \<open>The values printed: \<^verbatim>\<open>feat1->vals[i] - feat2->vals[i]\<close> and \<^verbatim>\<open>-feat2->vals[i]\<close>.\<close>

definition vals_diff :: "heap \<Rightarrow> addr \<Rightarrow> addr \<Rightarrow> int \<Rightarrow> error + SCIP_Real" where
  "vals_diff h feat1 feat2 i =
     (case vals_load h feat1 i of
        Inl e \<Rightarrow> Inl e
      | Inr a \<Rightarrow>
          (case vals_load h feat2 i of
             Inl e \<Rightarrow> Inl e
           | Inr b \<Rightarrow> Inr (dsub a b)))"

definition vals_neg :: "heap \<Rightarrow> addr \<Rightarrow> int \<Rightarrow> error + SCIP_Real" where
  "vals_neg h feat2 i =
     (case vals_load h feat2 i of
        Inl e \<Rightarrow> Inl e
      | Inr b \<Rightarrow> Inr (dneg b))"

text \<open>Two loops, one after the other.\<close>

definition print_two :: "error + message list \<Rightarrow> error + message list \<Rightarrow> error + message list" where
  "print_two first second =
     (case first of
        Inl e \<Rightarrow> Inl e
      | Inr ms1 \<Rightarrow>
          (case second of
             Inl e \<Rightarrow> Inl e
           | Inr ms2 \<Rightarrow> Inr (ms1 @ ms2)))"

text \<open>A line: the label, the pairs, the newline.\<close>

definition print_line :: "int \<Rightarrow> error + message list \<Rightarrow> error + message list" where
  "print_line label pairs =
     (case pairs of
        Inl e \<Rightarrow> Inl e
      | Inr ms \<Rightarrow> Inr ((''%d '', [ArgInt label]) # ms @ [(''\<newline>'', [])]))"

definition SCIPfeatLIBSVMPrint :: "heap \<Rightarrow> addr \<Rightarrow> int \<Rightarrow> error + message list" where
  "SCIPfeatLIBSVMPrint h feat label =
     (if feat = NULL then Inl AssertionFailed
      else case feats h feat of
        None \<Rightarrow> Inl InvalidAccess
      | Some f \<Rightarrow>
          if depth f = 0 then Inl AssertionFailed
          else
            (case SCIPfeatGetSize h feat of
               Inl e \<Rightarrow> Inl e
             | Inr n \<Rightarrow>
                 (case SCIPfeatGetOffset h feat of
                    Inl e \<Rightarrow> Inl e
                  | Inr offset \<Rightarrow>
                      print_line label (print_loop 0 n offset (vals_load h feat)))))"

text \<open>\<^verbatim>\<open>SCIPfeatDiffLIBSVMPrint\<close> from line 212 on, after the assertions and the swap.\<close>

definition diff_print :: "heap \<Rightarrow> addr \<Rightarrow> addr \<Rightarrow> int \<Rightarrow> error + message list" where
  "diff_print h feat1 feat2 label =
     (case SCIPfeatGetSize h feat1 of
        Inl e \<Rightarrow> Inl e
      | Inr n \<Rightarrow>
          (case SCIPfeatGetOffset h feat1 of
             Inl e \<Rightarrow> Inl e
           | Inr offset1 \<Rightarrow>
               (case SCIPfeatGetOffset h feat2 of
                  Inl e \<Rightarrow> Inl e
                | Inr offset2 \<Rightarrow>
                    print_line label
                      (if offset1 = offset2
                       then print_loop 0 n offset1 (vals_diff h feat1 feat2)
                       else if offset1 < offset2
                       then print_two (print_loop 0 n offset1 (vals_load h feat1))
                              (print_loop 0 n offset2 (vals_neg h feat2))
                       else print_two (print_loop 0 n offset2 (vals_neg h feat2))
                              (print_loop 0 n offset1 (vals_load h feat1))))))"

definition SCIPfeatDiffLIBSVMPrint ::
  "heap \<Rightarrow> addr \<Rightarrow> addr \<Rightarrow> int \<Rightarrow> bool \<Rightarrow> error + message list" where
  "SCIPfeatDiffLIBSVMPrint h feat1 feat2 label negate =
     (if feat1 = NULL then Inl AssertionFailed
      else if feat2 = NULL then Inl AssertionFailed
      else case feats h feat1 of
        None \<Rightarrow> Inl InvalidAccess
      | Some f1 \<Rightarrow>
          if depth f1 = 0 then Inl AssertionFailed
          else
            (case feats h feat2 of
               None \<Rightarrow> Inl InvalidAccess
             | Some f2 \<Rightarrow>
                 if depth f2 = 0 then Inl AssertionFailed
                 else if size_feat f1 \<noteq> size_feat f2 then Inl AssertionFailed
                 else if negate then diff_print h feat2 feat1 (- 1 * label)
                 else diff_print h feat1 feat2 label))"

subsection \<open>Vectors in the store; lines of output\<close>

text \<open>
  \<open>valid_feat h feat f xs\<close>: the non-null pointer \<open>feat\<close> points to the struct \<open>f\<close>,
  whose \<open>vals\<close> is non-null and points to the array \<open>xs\<close> of \<open>size\<close> numbers.
\<close>

definition valid_feat :: "heap \<Rightarrow> addr \<Rightarrow> SCIP_FEAT \<Rightarrow> SCIP_Real list \<Rightarrow> bool" where
  "valid_feat h feat f xs \<longleftrightarrow>
     feat \<noteq> NULL \<and> feats h feat = Some f \<and> vals f \<noteq> NULL \<and>
     arrays h (vals f) = Some xs \<and> int (length xs) = size_feat f"

text \<open>The index:value pairs of a block: the value of slot \<open>i\<close> under the index
  \<open>i + offset + 1\<close>, in slot order.\<close>

definition sparse_pairs :: "int \<Rightarrow> SCIP_Real list \<Rightarrow> (int \<times> SCIP_Real) list" where
  "sparse_pairs offset vs = map (\<lambda>i. (int i + offset + 1, vs ! i)) [0..<length vs]"

text \<open>A line of output: the label, the pairs, the newline.\<close>

definition libsvm_line :: "int \<Rightarrow> (int \<times> SCIP_Real) list \<Rightarrow> message list" where
  "libsvm_line label ps =
     (''%d '', [ArgInt label])
     # map (\<lambda>(k, v). (''%d:%f '', [ArgInt k, ArgReal v])) ps
     @ [(''\<newline>'', [])]"

text \<open>The scalar fields of a vector: \<open>maxdepth\<close>, \<open>depth\<close>, \<open>size\<close>, \<open>boundtype\<close>,
  \<open>rootlpobj\<close>, \<open>sumobjcoeff\<close> and \<open>nconstrs\<close>.\<close>

definition feat_scalars :: "SCIP_FEAT \<Rightarrow> int \<times> int \<times> int \<times> int \<times> SCIP_Real \<times> SCIP_Real \<times> int" where
  "feat_scalars f =
     (maxdepth f, depth f, size_feat f, boundtype f, rootlpobj f, sumobjcoeff f, nconstrs f)"

text \<open>What a pointer shows of a vector: its scalar fields and the values its \<open>vals\<close>
  points to. Two vectors are deeply equal when their views are.\<close>

definition feat_view ::
  "heap \<Rightarrow> addr \<Rightarrow> ((int \<times> int \<times> int \<times> int \<times> SCIP_Real \<times> SCIP_Real \<times> int) \<times> SCIP_Real list) option" where
  "feat_view h feat =
     (case feats h feat of
        None \<Rightarrow> None
      | Some f \<Rightarrow>
          (case arrays h (vals f) of
             None \<Rightarrow> None
           | Some xs \<Rightarrow> Some (feat_scalars f, xs)))"

text \<open>\<open>same_except h h' feat a\<close>: the store \<open>h'\<close> differs from \<open>h\<close> at most in the
  struct at \<open>feat\<close> and in the array at \<open>a\<close>.\<close>

definition same_except :: "heap \<Rightarrow> heap \<Rightarrow> addr \<Rightarrow> addr \<Rightarrow> bool" where
  "same_except h h' feat a \<longleftrightarrow>
     (\<forall>p. p \<noteq> feat \<longrightarrow> feats h' p = feats h p) \<and>
     (\<forall>b. b \<noteq> a \<longrightarrow> arrays h' b = arrays h b)"

text \<open>Every slot number is an index into an array of \<open>n\<close> values.\<close>

definition slots_in_range :: "extern_consts \<Rightarrow> int \<Rightarrow> bool" where
  "slots_in_range K n \<longleftrightarrow> (\<forall>s. 0 \<le> FEATNODESEL K s \<and> FEATNODESEL K s < n)"

text \<open>The value array after a list of slot assignments.\<close>

definition assign_slots ::
  "extern_consts \<Rightarrow> SCIP_Real list \<Rightarrow> (SCIP_FEATNODESEL \<times> SCIP_Real) list \<Rightarrow> SCIP_Real list" where
  "assign_slots K xs as = foldl (\<lambda>ys (s, v). ys[nat (FEATNODESEL K s) := v]) xs as"

subsection \<open>Concrete instances\<close>

text \<open>A struct with the given \<open>vals\<close>, \<open>maxdepth\<close>, \<open>depth\<close>, \<open>size\<close> and \<open>boundtype\<close>,
  the other scalars zero.\<close>

definition feat_of :: "addr \<Rightarrow> int \<Rightarrow> int \<Rightarrow> int \<Rightarrow> int \<Rightarrow> SCIP_FEAT" where
  "feat_of a md d n bt =
     \<lparr>vals = a, rootlpobj = Fin 0, sumobjcoeff = Fin 0, nconstrs = 0,
      maxdepth = md, depth = d, size_feat = n, boundtype = bt\<rparr>"

text \<open>A store with one vector: the struct at address 1, its values at address 2.\<close>

definition heap1 :: "SCIP_FEAT \<Rightarrow> SCIP_Real list \<Rightarrow> heap" where
  "heap1 f xs = \<lparr>feats = [1 \<mapsto> f], arrays = [2 \<mapsto> xs]\<rparr>"

text \<open>A store with two vectors: structs at addresses 1 and 3, their values at 2 and 4.\<close>

definition heap2 :: "SCIP_FEAT \<Rightarrow> SCIP_Real list \<Rightarrow> SCIP_FEAT \<Rightarrow> SCIP_Real list \<Rightarrow> heap" where
  "heap2 f xs g ys = \<lparr>feats = [1 \<mapsto> f, 3 \<mapsto> g], arrays = [2 \<mapsto> xs, 4 \<mapsto> ys]\<rparr>"

text \<open>An instance of the constants: the slots numbered from 0 in the order of their first
  assignment in the source.\<close>

fun slot_number :: "SCIP_FEATNODESEL \<Rightarrow> int" where
  "slot_number SCIP_FEATNODESEL_LOWERBOUND = 0"
| "slot_number SCIP_FEATNODESEL_ESTIMATE = 1"
| "slot_number SCIP_FEATNODESEL_RELATIVEBOUND = 2"
| "slot_number SCIP_FEATNODESEL_TYPE_SIBLING = 3"
| "slot_number SCIP_FEATNODESEL_TYPE_CHILD = 4"
| "slot_number SCIP_FEATNODESEL_TYPE_LEAF = 5"
| "slot_number SCIP_FEATNODESEL_BRANCHVAR_OBJCONSTR = 6"
| "slot_number SCIP_FEATNODESEL_BRANCHVAR_BOUNDLPDIFF = 7"
| "slot_number SCIP_FEATNODESEL_BRANCHVAR_ROOTLPDIFF = 8"
| "slot_number SCIP_FEATNODESEL_BRANCHVAR_PRIO_DOWN = 9"
| "slot_number SCIP_FEATNODESEL_BRANCHVAR_PRIO_UP = 10"
| "slot_number SCIP_FEATNODESEL_BRANCHVAR_PSEUDOCOST = 11"
| "slot_number SCIP_FEATNODESEL_BRANCHVAR_INF = 12"

definition consts13 :: extern_consts where
  "consts13 = \<lparr>FEATNODESEL = slot_number, SCIP_BOUNDTYPE_LOWER = 0\<rparr>"

text \<open>A column, a variable, a node with one branching bound change on that variable, and
  the global state, with the given numbers.\<close>

definition col_of :: "real \<Rightarrow> int \<Rightarrow> SCIP_COL" where
  "col_of obj nnonz = \<lparr>colGetObj = obj, colGetNNonz = nnonz\<rparr>"

definition var_of :: "SCIP_COL \<Rightarrow> SCIP_VAR" where
  "var_of col =
     \<lparr>varGetBranchDirection = SCIP_BRANCHDIR_DOWNWARDS, varGetCol = col,
      varGetSol = (\<lambda>haslp. 5 / 2), varGetRootSol = 2,
      varGetPseudocost = (\<lambda>delta. 4 * delta), varGetAvgInferences = (\<lambda>dir. 1)\<rparr>"

definition node_of :: "real \<Rightarrow> real \<Rightarrow> SCIP_COL \<Rightarrow> SCIP_NODE" where
  "node_of lb est col =
     \<lparr>nodeGetType = SCIP_NODETYPE_CHILD, nodeGetDepth = 25,
      nodeGetLowerbound = lb, nodeGetEstimate = est,
      node_boundchgs =
        Some [\<lparr>boundchg_var = var_of col, boundchg_newbound = 3,
               boundchg_boundchgtype = SCIP_BOUNDCHGTYPE_BRANCHING,
               boundchg_boundtype = 1\<rparr>]\<rparr>"

definition scip_of :: "real \<Rightarrow> real \<Rightarrow> real \<Rightarrow> int \<Rightarrow> SCIP" where
  "scip_of rootlb lb cutoff nsols =
     \<lparr>getLowerboundRoot = rootlb, getLowerbound = lb, getCutoffbound = cutoff,
      getNSolsFound = nsols, treeHasFocusNodeLP = True\<rparr>"

text \<open>A store with one vector of 13 zeros, \<open>maxdepth\<close> set to 100 and \<open>depth\<close> 0.\<close>

definition fresh13 :: heap where
  "fresh13 = heap1 (feat_of 2 100 0 13 0) (replicate 13 (Fin 0))"

section \<open>Properties\<close>

text \<open>Unfolding the concrete instances.\<close>

lemmas instance_defs = valid_feat_def heap1_def heap2_def feat_of_def NULL_def
  SCIPfeatGetOffset_def c_div_def truncated_quotient_def

subsection \<open>Division\<close>

lemma truncated_quotient_nonneg:
  "0 \<le> a \<Longrightarrow> 0 < b \<Longrightarrow> truncated_quotient a b = a div b"
  by (simp add: truncated_quotient_def)

lemma truncated_quotient_10_eq_0: "truncated_quotient m 10 = 0 \<longleftrightarrow> \<bar>m\<bar> < 10"
  by (auto simp: truncated_quotient_def div_eq_0_iff)

subsection \<open>The offset\<close>

lemma SCIPfeatGetOffset_eq:
  assumes "feat \<noteq> NULL" and "feats h feat = Some f"
  shows "SCIPfeatGetOffset h feat =
      (if \<bar>maxdepth f\<bar> < 10 then Inl DivisionByZero
       else Inr (size_feat f * 2
                   * truncated_quotient (depth f) (truncated_quotient (maxdepth f) 10)
                 + size_feat f * boundtype f))"
  using assms by (simp add: SCIPfeatGetOffset_def c_div_def truncated_quotient_10_eq_0)

lemma SCIPfeatGetOffset_dvd:
  assumes "SCIPfeatGetOffset h feat = Inr offset" and "feats h feat = Some f"
  shows "size_feat f dvd offset"
proof -
  from assms(1) have "feat \<noteq> NULL"
    by (auto simp: SCIPfeatGetOffset_def)
  from SCIPfeatGetOffset_eq [OF this assms(2)] assms(1)
  have "offset = size_feat f * 2
                   * truncated_quotient (depth f) (truncated_quotient (maxdepth f) 10)
                 + size_feat f * boundtype f"
    by (simp split: if_splits)
  then show ?thesis
    by simp
qed

lemma offset_gap:
  fixes n a b :: int
  assumes "n dvd a" and "n dvd b" and "a < b"
  shows "a + n \<le> b"
proof -
  from assms have "n dvd b - a" and "0 < b - a"
    by simp_all
  then have "n \<le> b - a"
    by (rule zdvd_imp_le)
  then show ?thesis
    by simp
qed

text \<open>
  C2 (amended). For a vector whose \<open>maxdepth / 10\<close> is not zero, that is
  \<open>10 \<le> \<bar>maxdepth\<bar>\<close>, the offset is \<open>size * 2 * (depth / (maxdepth / 10)) + size * boundtype\<close>
  with the truncating division of C; this is floor division when \<open>10 \<le> maxdepth\<close> and
  \<open>0 \<le> depth\<close>. When \<open>maxdepth / 10\<close> is zero the code divides by zero and there is no
  offset.
\<close>

theorem SCIPfeatGetOffset_formula:
  assumes "feat \<noteq> NULL" and "feats h feat = Some f"
  shows "SCIPfeatGetOffset h feat =
           (if \<bar>maxdepth f\<bar> < 10 then Inl DivisionByZero
            else Inr (size_feat f * 2
                        * truncated_quotient (depth f) (truncated_quotient (maxdepth f) 10)
                      + size_feat f * boundtype f))
         \<and> (10 \<le> maxdepth f \<and> 0 \<le> depth f \<longrightarrow>
              SCIPfeatGetOffset h feat =
                Inr (size_feat f * 2 * (depth f div (maxdepth f div 10))
                     + size_feat f * boundtype f))"
proof (intro conjI impI)
  show eq: "SCIPfeatGetOffset h feat =
           (if \<bar>maxdepth f\<bar> < 10 then Inl DivisionByZero
            else Inr (size_feat f * 2
                        * truncated_quotient (depth f) (truncated_quotient (maxdepth f) 10)
                      + size_feat f * boundtype f))"
    by (rule SCIPfeatGetOffset_eq [OF assms])
  assume range: "10 \<le> maxdepth f \<and> 0 \<le> depth f"
  then have inner: "truncated_quotient (maxdepth f) 10 = maxdepth f div 10"
    by (simp add: truncated_quotient_nonneg)
  from range have "0 < maxdepth f div 10"
    by (simp add: pos_imp_zdiv_pos_iff)
  with range inner eq
  show "SCIPfeatGetOffset h feat =
          Inr (size_feat f * 2 * (depth f div (maxdepth f div 10))
               + size_feat f * boundtype f)"
    by (simp add: truncated_quotient_nonneg)
qed

text \<open>The scenario of the spec: size 11, depth 25, maxdepth 100 and bound type 1 give 55.\<close>

theorem SCIPfeatGetOffset_formula_witness:
  "(1::addr) \<noteq> NULL
   \<and> feats (heap1 (feat_of 2 100 25 11 1) (replicate 11 (Fin 0))) 1 = Some (feat_of 2 100 25 11 1)
   \<and> 10 \<le> maxdepth (feat_of 2 100 25 11 1) \<and> 0 \<le> depth (feat_of 2 100 25 11 1)
   \<and> SCIPfeatGetOffset (heap1 (feat_of 2 100 25 11 1) (replicate 11 (Fin 0))) 1 = Inr 55"
proof -
  have p: "(1::addr) \<noteq> NULL"
    by (simp add: NULL_def)
  have f: "feats (heap1 (feat_of 2 100 25 11 1) (replicate 11 (Fin 0))) 1
      = Some (feat_of 2 100 25 11 1)"
    by (simp add: heap1_def)
  have r: "10 \<le> maxdepth (feat_of 2 100 25 11 1) \<and> 0 \<le> depth (feat_of 2 100 25 11 1)"
    by (simp add: feat_of_def)
  from SCIPfeatGetOffset_formula [OF p f, THEN conjunct2, rule_format, OF r]
  have "SCIPfeatGetOffset (heap1 (feat_of 2 100 25 11 1) (replicate 11 (Fin 0))) 1 = Inr 55"
    by (simp add: feat_of_def)
  with p f r show ?thesis
    by blast
qed

text \<open>
  C2 as stated fails: \<open>maxdepth = 5\<close> is not zero, but \<open>maxdepth / 10\<close> is, and the code
  divides by it.
\<close>

theorem SCIPfeatGetOffset_maxdepth_5:
  "maxdepth (feat_of 2 5 25 11 1) \<noteq> 0
   \<and> SCIPfeatGetOffset (heap1 (feat_of 2 5 25 11 1) (replicate 11 (Fin 0))) 1
       = Inl DivisionByZero"
  by (simp add: SCIPfeatGetOffset_def c_div_def truncated_quotient_def heap1_def feat_of_def
      NULL_def)

subsection \<open>The writers\<close>

lemma print_loop_pairs:
  assumes body: "\<And>k. 0 \<le> k \<Longrightarrow> k < n \<Longrightarrow> body k = Inr (vs ! nat k)"
    and len: "int (length vs) = n"
  shows "0 \<le> i \<Longrightarrow> i \<le> n \<Longrightarrow>
    print_loop i n offset body =
      Inr (map (\<lambda>j. (''%d:%f '', [ArgInt (int j + offset + 1), ArgReal (vs ! j)]))
             [nat i..<length vs])"
proof (induction "nat (n - i)" arbitrary: i)
  case 0
  then have "i = n" by simp
  with len show ?case
    by (simp add: print_loop.simps [of n])
next
  case (Suc m)
  then have lt: "i < n" and nonneg: "0 \<le> i" by simp_all
  from Suc(2) have m: "m = nat (n - (i + 1))" by simp
  from lt nonneg have IH: "print_loop (i + 1) n offset body =
      Inr (map (\<lambda>j. (''%d:%f '', [ArgInt (int j + offset + 1), ArgReal (vs ! j)]))
             [nat (i + 1)..<length vs])"
    by (intro Suc(1) [OF m]) simp_all
  from lt nonneg len have "nat i < length vs" by simp
  then have upt: "[nat i..<length vs] = nat i # [nat (i + 1)..<length vs]"
    using nonneg by (simp add: upt_conv_Cons nat_add_distrib)
  from lt nonneg show ?case
    by (subst print_loop.simps) (simp add: body IH upt)
qed

lemma print_loop_sparse_pairs:
  assumes "\<And>k. 0 \<le> k \<Longrightarrow> k < n \<Longrightarrow> body k = Inr (vs ! nat k)"
    and "int (length vs) = n"
  shows "print_loop 0 n offset body =
      Inr (map (\<lambda>(k, v). (''%d:%f '', [ArgInt k, ArgReal v])) (sparse_pairs offset vs))"
  using print_loop_pairs [OF assms, of 0 offset] assms(2)
  by (simp add: sparse_pairs_def comp_def)

lemma vals_load_valid:
  "valid_feat h feat f xs \<Longrightarrow> 0 \<le> k \<Longrightarrow> k < size_feat f \<Longrightarrow> vals_load h feat k = Inr (xs ! nat k)"
  by (simp add: valid_feat_def vals_load_def)

lemma length_sparse_pairs: "length (sparse_pairs offset vs) = length vs"
  by (simp add: sparse_pairs_def)

lemma snd_sparse_pairs: "map snd (sparse_pairs offset vs) = vs"
  by (simp add: sparse_pairs_def comp_def map_nth)

lemma fst_sparse_pairs: "map fst (sparse_pairs offset vs) = [offset + 1..offset + int (length vs)]"
proof (induction vs rule: rev_induct)
  case Nil
  show ?case by (simp add: sparse_pairs_def)
next
  case (snoc x xs)
  have "[offset + 1..offset + int (length (xs @ [x]))] = [offset + 1..offset + int (length xs)] @ [offset + int (length xs) + 1]"
    using upto_rec2 [of "offset + 1" "offset + int (length xs) + 1"] by (simp add: ac_simps)
  with snoc show ?case
    by (simp add: sparse_pairs_def comp_def ac_simps)
qed

lemma sorted_indices_two_blocks:
  assumes "a + int (length xs) \<le> b"
  shows "sorted_wrt (<) (map fst (sparse_pairs a xs @ sparse_pairs b ys))"
  using assms by (auto simp: fst_sparse_pairs sorted_wrt_append sorted_wrt_upto)

lemma SCIPfeatGetSize_valid: "valid_feat h feat f xs \<Longrightarrow> SCIPfeatGetSize h feat = Inr (size_feat f)"
  by (simp add: valid_feat_def SCIPfeatGetSize_def)

lemma print_loop_vals_load:
  assumes "valid_feat h feat f xs"
  shows "print_loop 0 (size_feat f) offset (vals_load h feat) =
      Inr (map (\<lambda>(k, v). (''%d:%f '', [ArgInt k, ArgReal v])) (sparse_pairs offset xs))"
proof (rule print_loop_sparse_pairs)
  show "int (length xs) = size_feat f"
    using assms by (simp add: valid_feat_def)
  fix k :: int
  assume "0 \<le> k" and "k < size_feat f"
  with assms show "vals_load h feat k = Inr (xs ! nat k)"
    by (rule vals_load_valid)
qed

lemma print_loop_vals_neg:
  assumes "valid_feat h feat f xs"
  shows "print_loop 0 (size_feat f) offset (vals_neg h feat) =
      Inr (map (\<lambda>(k, v). (''%d:%f '', [ArgInt k, ArgReal v])) (sparse_pairs offset (map dneg xs)))"
proof (rule print_loop_sparse_pairs)
  show "int (length (map dneg xs)) = size_feat f"
    using assms by (simp add: valid_feat_def)
  fix k :: int
  assume k: "0 \<le> k" "k < size_feat f"
  with assms have "nat k < length xs"
    by (auto simp: valid_feat_def)
  with k assms show "vals_neg h feat k = Inr (map dneg xs ! nat k)"
    by (simp add: vals_neg_def vals_load_valid)
qed

lemma print_loop_vals_diff:
  assumes "valid_feat h feat1 f1 xs" and "valid_feat h feat2 f2 ys"
    and "size_feat f1 = size_feat f2"
  shows "print_loop 0 (size_feat f1) offset (vals_diff h feat1 feat2) =
      Inr (map (\<lambda>(k, v). (''%d:%f '', [ArgInt k, ArgReal v]))
             (sparse_pairs offset (map2 dsub xs ys)))"
proof (rule print_loop_sparse_pairs)
  from assms have len: "length xs = length ys" "int (length xs) = size_feat f1"
    by (simp_all add: valid_feat_def)
  then show "int (length (map2 dsub xs ys)) = size_feat f1"
    by simp
  fix k :: int
  assume k: "0 \<le> k" "k < size_feat f1"
  with len have "nat k < length xs" "nat k < length ys"
    by simp_all
  with k assms show "vals_diff h feat1 feat2 k = Inr (map2 dsub xs ys ! nat k)"
    by (simp add: vals_diff_def vals_load_valid)
qed

lemma SCIPfeatLIBSVMPrint_eq:
  assumes "valid_feat h feat f xs" and "depth f \<noteq> 0"
    and "SCIPfeatGetOffset h feat = Inr offset"
  shows "SCIPfeatLIBSVMPrint h feat label = Inr (libsvm_line label (sparse_pairs offset xs))"
proof -
  from assms(1) have "feat \<noteq> NULL" "feats h feat = Some f"
    by (simp_all add: valid_feat_def)
  with assms show ?thesis
    by (simp add: SCIPfeatLIBSVMPrint_def SCIPfeatGetSize_valid print_loop_vals_load
        print_line_def libsvm_line_def)
qed

lemma diff_print_eq:
  assumes "valid_feat h feat1 f1 xs" and "valid_feat h feat2 f2 ys"
    and "size_feat f1 = size_feat f2"
    and "SCIPfeatGetOffset h feat1 = Inr offset1"
    and "SCIPfeatGetOffset h feat2 = Inr offset2"
  shows "diff_print h feat1 feat2 label =
    Inr (libsvm_line label
          (if offset1 = offset2 then sparse_pairs offset1 (map2 dsub xs ys)
           else if offset1 < offset2
           then sparse_pairs offset1 xs @ sparse_pairs offset2 (map dneg ys)
           else sparse_pairs offset2 (map dneg ys) @ sparse_pairs offset1 xs))"
proof -
  have n2: "size_feat f2 = size_feat f1"
    using assms(3) by simp
  have a: "print_loop 0 (size_feat f1) offset1 (vals_load h feat1) =
      Inr (map (\<lambda>(k, v). (''%d:%f '', [ArgInt k, ArgReal v])) (sparse_pairs offset1 xs))"
    by (rule print_loop_vals_load [OF assms(1)])
  have b: "print_loop 0 (size_feat f1) offset2 (vals_neg h feat2) =
      Inr (map (\<lambda>(k, v). (''%d:%f '', [ArgInt k, ArgReal v]))
             (sparse_pairs offset2 (map dneg ys)))"
    using print_loop_vals_neg [OF assms(2), of offset2] by (simp only: n2)
  have c: "print_loop 0 (size_feat f1) offset2 (vals_diff h feat1 feat2) =
      Inr (map (\<lambda>(k, v). (''%d:%f '', [ArgInt k, ArgReal v]))
             (sparse_pairs offset2 (map2 dsub xs ys)))"
    by (rule print_loop_vals_diff [OF assms(1,2,3)])
  show ?thesis
    by (simp add: diff_print_def SCIPfeatGetSize_valid [OF assms(1)] assms(4,5) a b c
        print_line_def print_two_def libsvm_line_def)
qed

lemma SCIPfeatDiffLIBSVMPrint_diff_print:
  assumes "valid_feat h feat1 f1 xs" and "valid_feat h feat2 f2 ys"
    and "depth f1 \<noteq> 0" and "depth f2 \<noteq> 0" and "size_feat f1 = size_feat f2"
  shows "SCIPfeatDiffLIBSVMPrint h feat1 feat2 label negate =
    (if negate then diff_print h feat2 feat1 (- label) else diff_print h feat1 feat2 label)"
  using assms by (simp add: SCIPfeatDiffLIBSVMPrint_def valid_feat_def)

text \<open>
  C5 (amended). For a computed vector (\<open>depth \<noteq> 0\<close>) of size \<open>n\<close> whose \<open>maxdepth / 10\<close> is
  not zero, that is \<open>10 \<le> \<bar>maxdepth\<bar>\<close>, the offset exists and \<^verbatim>\<open>SCIPfeatLIBSVMPrint\<close>
  prints one line: the label, then exactly \<open>n\<close> index:value pairs whose indices are
  \<open>offset + 1, \<dots>, offset + n\<close> in ascending order and whose values are the slots in slot
  order, then the newline. When \<open>maxdepth / 10\<close> is zero, the writer divides by zero while
  it computes the offset and prints nothing.
\<close>

theorem SCIPfeatLIBSVMPrint_line:
  assumes "valid_feat h feat f xs" and "depth f \<noteq> 0"
  shows "(if \<bar>maxdepth f\<bar> < 10
          then SCIPfeatLIBSVMPrint h feat label = Inl DivisionByZero
          else \<exists>offset. SCIPfeatGetOffset h feat = Inr offset
            \<and> SCIPfeatLIBSVMPrint h feat label
                = Inr (libsvm_line label (sparse_pairs offset xs))
            \<and> length (sparse_pairs offset xs) = nat (size_feat f)
            \<and> map fst (sparse_pairs offset xs) = [offset + 1..offset + size_feat f]
            \<and> map snd (sparse_pairs offset xs) = xs)"
proof (cases "\<bar>maxdepth f\<bar> < 10")
  case True
  from assms(1) have p: "feat \<noteq> NULL" and f: "feats h feat = Some f"
    by (simp_all add: valid_feat_def)
  from True have "SCIPfeatGetOffset h feat = Inl DivisionByZero"
    by (simp add: SCIPfeatGetOffset_eq [OF p f])
  with True show ?thesis
    by (simp add: SCIPfeatLIBSVMPrint_def p f assms(2) SCIPfeatGetSize_valid [OF assms(1)])
next
  case False
  from assms(1) have p: "feat \<noteq> NULL" and f: "feats h feat = Some f"
    and len: "int (length xs) = size_feat f"
    by (simp_all add: valid_feat_def)
  from False obtain offset where off: "SCIPfeatGetOffset h feat = Inr offset"
    by (simp add: SCIPfeatGetOffset_eq [OF p f])
  have "SCIPfeatLIBSVMPrint h feat label = Inr (libsvm_line label (sparse_pairs offset xs))"
    by (rule SCIPfeatLIBSVMPrint_eq [OF assms off])
  moreover from len have "length (sparse_pairs offset xs) = nat (size_feat f)"
    by (simp add: length_sparse_pairs)
  moreover from len
  have "map fst (sparse_pairs offset xs) = [offset + 1..offset + size_feat f]"
    by (simp add: fst_sparse_pairs)
  moreover have "map snd (sparse_pairs offset xs) = xs"
    by (rule snd_sparse_pairs)
  ultimately show ?thesis
    using False off by auto
qed

text \<open>A vector of size 3 with \<open>maxdepth\<close> 100, hence offset 15, and the label 7.\<close>

theorem SCIPfeatLIBSVMPrint_line_witness:
  "valid_feat (heap1 (feat_of 2 100 25 3 1) [Fin 1, Fin 2, Fin 3]) 1
      (feat_of 2 100 25 3 1) [Fin 1, Fin 2, Fin 3]
   \<and> depth (feat_of 2 100 25 3 1) \<noteq> 0
   \<and> \<bar>maxdepth (feat_of 2 100 25 3 1)\<bar> = 100
   \<and> SCIPfeatGetOffset (heap1 (feat_of 2 100 25 3 1) [Fin 1, Fin 2, Fin 3]) 1 = Inr 15
   \<and> SCIPfeatLIBSVMPrint (heap1 (feat_of 2 100 25 3 1) [Fin 1, Fin 2, Fin 3]) 1 7 =
       Inr [(''%d '', [ArgInt 7]),
            (''%d:%f '', [ArgInt 16, ArgReal (Fin 1)]),
            (''%d:%f '', [ArgInt 17, ArgReal (Fin 2)]),
            (''%d:%f '', [ArgInt 18, ArgReal (Fin 3)]),
            (''\<newline>'', [])]"
proof -
  let ?f = "feat_of 2 100 25 3 1" and ?xs = "[Fin 1, Fin 2, Fin 3]"
  have v: "valid_feat (heap1 ?f ?xs) 1 ?f ?xs"
    by (simp add: instance_defs)
  have d: "depth ?f \<noteq> 0" and m: "\<bar>maxdepth ?f\<bar> = 100"
    by (simp_all add: feat_of_def)
  have off: "SCIPfeatGetOffset (heap1 ?f ?xs) 1 = Inr 15"
    by (simp add: instance_defs)
  from SCIPfeatLIBSVMPrint_line [OF v d, of 7] m
  obtain offset where "SCIPfeatGetOffset (heap1 ?f ?xs) 1 = Inr offset"
    and line: "SCIPfeatLIBSVMPrint (heap1 ?f ?xs) 1 7
      = Inr (libsvm_line 7 (sparse_pairs offset ?xs))"
    by auto
  with off have "offset = 15"
    by simp
  with line have "SCIPfeatLIBSVMPrint (heap1 ?f ?xs) 1 7 =
       Inr [(''%d '', [ArgInt 7]),
            (''%d:%f '', [ArgInt 16, ArgReal (Fin 1)]),
            (''%d:%f '', [ArgInt 17, ArgReal (Fin 2)]),
            (''%d:%f '', [ArgInt 18, ArgReal (Fin 3)]),
            (''\<newline>'', [])]"
    by (simp add: libsvm_line_def sparse_pairs_def)
  with v d m off show ?thesis
    by (simp only: simp_thms)
qed

text \<open>
  C5 as stated fails: a vector with \<open>maxdepth = 5\<close> and \<open>depth = 3\<close> is computed
  (\<open>depth \<noteq> 0\<close>, and the calculation only asks for \<open>maxdepth \<noteq> 0\<close>), but the writer divides
  by \<open>maxdepth / 10 = 0\<close> and prints no line.
\<close>

theorem SCIPfeatLIBSVMPrint_maxdepth_5:
  "valid_feat (heap1 (feat_of 2 5 3 3 1) [Fin 1, Fin 2, Fin 3]) 1
      (feat_of 2 5 3 3 1) [Fin 1, Fin 2, Fin 3]
   \<and> depth (feat_of 2 5 3 3 1) \<noteq> 0
   \<and> SCIPfeatLIBSVMPrint (heap1 (feat_of 2 5 3 3 1) [Fin 1, Fin 2, Fin 3]) 1 7
       = Inl DivisionByZero"
  by (simp add: SCIPfeatLIBSVMPrint_def SCIPfeatGetSize_def instance_defs)

text \<open>
  C6. For computed vectors \<open>a\<close> and \<open>b\<close> of equal size and every label,
  \<^verbatim>\<open>SCIPfeatDiffLIBSVMPrint\<close> with \<open>negate\<close> set prints what it prints for \<open>b\<close>, \<open>a\<close>
  and the negated label with \<open>negate\<close> not set.
\<close>

theorem SCIPfeatDiffLIBSVMPrint_negate:
  assumes "valid_feat h a fa xs" and "valid_feat h b fb ys"
    and "depth fa \<noteq> 0" and "depth fb \<noteq> 0" and "size_feat fa = size_feat fb"
  shows "SCIPfeatDiffLIBSVMPrint h a b label True
       = SCIPfeatDiffLIBSVMPrint h b a (- label) False"
proof -
  have "SCIPfeatDiffLIBSVMPrint h a b label True = diff_print h b a (- label)"
    using SCIPfeatDiffLIBSVMPrint_diff_print [OF assms, of label True] by simp
  moreover have "SCIPfeatDiffLIBSVMPrint h b a (- label) False = diff_print h b a (- label)"
    using SCIPfeatDiffLIBSVMPrint_diff_print
      [OF assms(2) assms(1) assms(4) assms(3) assms(5) [symmetric], of "- label" False]
    by simp
  ultimately show ?thesis
    by simp
qed

text \<open>Two vectors of size 2, with offsets 10 and 12.\<close>

theorem SCIPfeatDiffLIBSVMPrint_negate_witness:
  "valid_feat (heap2 (feat_of 2 100 25 2 1) [Fin 5, Fin 7] (feat_of 4 100 35 2 0) [Fin 1, Fin 2])
      1 (feat_of 2 100 25 2 1) [Fin 5, Fin 7]
   \<and> valid_feat (heap2 (feat_of 2 100 25 2 1) [Fin 5, Fin 7] (feat_of 4 100 35 2 0) [Fin 1, Fin 2])
      3 (feat_of 4 100 35 2 0) [Fin 1, Fin 2]
   \<and> depth (feat_of 2 100 25 2 1) \<noteq> 0 \<and> depth (feat_of 4 100 35 2 0) \<noteq> 0
   \<and> size_feat (feat_of 2 100 25 2 1) = size_feat (feat_of 4 100 35 2 0)
   \<and> SCIPfeatDiffLIBSVMPrint
        (heap2 (feat_of 2 100 25 2 1) [Fin 5, Fin 7] (feat_of 4 100 35 2 0) [Fin 1, Fin 2])
        1 3 1 True
     = SCIPfeatDiffLIBSVMPrint
        (heap2 (feat_of 2 100 25 2 1) [Fin 5, Fin 7] (feat_of 4 100 35 2 0) [Fin 1, Fin 2])
        3 1 (- 1) False
   \<and> SCIPfeatDiffLIBSVMPrint
        (heap2 (feat_of 2 100 25 2 1) [Fin 5, Fin 7] (feat_of 4 100 35 2 0) [Fin 1, Fin 2])
        1 3 1 True
     = Inr [(''%d '', [ArgInt (- 1)]),
            (''%d:%f '', [ArgInt 11, ArgReal (Fin (- 5))]),
            (''%d:%f '', [ArgInt 12, ArgReal (Fin (- 7))]),
            (''%d:%f '', [ArgInt 13, ArgReal (Fin 1)]),
            (''%d:%f '', [ArgInt 14, ArgReal (Fin 2)]),
            (''\<newline>'', [])]"
proof -
  let ?fa = "feat_of 2 100 25 2 1" and ?xs = "[Fin 5, Fin 7]"
  let ?fb = "feat_of 4 100 35 2 0" and ?ys = "[Fin 1, Fin 2]"
  let ?h = "heap2 ?fa ?xs ?fb ?ys"
  have va: "valid_feat ?h 1 ?fa ?xs" and vb: "valid_feat ?h 3 ?fb ?ys"
    by (simp_all add: instance_defs)
  have da: "depth ?fa \<noteq> 0" and db: "depth ?fb \<noteq> 0" and n: "size_feat ?fa = size_feat ?fb"
    by (simp_all add: feat_of_def)
  have oa: "SCIPfeatGetOffset ?h 1 = Inr 10" and ob: "SCIPfeatGetOffset ?h 3 = Inr 12"
    by (simp_all add: instance_defs)
  have eq: "SCIPfeatDiffLIBSVMPrint ?h 1 3 1 True = SCIPfeatDiffLIBSVMPrint ?h 3 1 (- 1) False"
    by (rule SCIPfeatDiffLIBSVMPrint_negate [OF va vb da db n])
  have "SCIPfeatDiffLIBSVMPrint ?h 3 1 (- 1) False = diff_print ?h 3 1 (- 1)"
    using SCIPfeatDiffLIBSVMPrint_diff_print [OF vb va db da n [symmetric], of "- 1" False]
    by simp
  also have "\<dots> = Inr [(''%d '', [ArgInt (- 1)]),
            (''%d:%f '', [ArgInt 11, ArgReal (Fin (- 5))]),
            (''%d:%f '', [ArgInt 12, ArgReal (Fin (- 7))]),
            (''%d:%f '', [ArgInt 13, ArgReal (Fin 1)]),
            (''%d:%f '', [ArgInt 14, ArgReal (Fin 2)]),
            (''\<newline>'', [])]"
    using diff_print_eq [OF vb va n [symmetric] ob oa, of "- 1"]
    by (simp add: libsvm_line_def sparse_pairs_def)
  finally have "SCIPfeatDiffLIBSVMPrint ?h 1 3 1 True = Inr [(''%d '', [ArgInt (- 1)]),
            (''%d:%f '', [ArgInt 11, ArgReal (Fin (- 5))]),
            (''%d:%f '', [ArgInt 12, ArgReal (Fin (- 7))]),
            (''%d:%f '', [ArgInt 13, ArgReal (Fin 1)]),
            (''%d:%f '', [ArgInt 14, ArgReal (Fin 2)]),
            (''\<newline>'', [])]"
    by (simp only: eq)
  with va vb da db n eq show ?thesis
    by (simp only: simp_thms)
qed

text \<open>
  C7. For computed vectors \<open>a\<close> and \<open>b\<close> of equal size and equal offsets,
  \<^verbatim>\<open>SCIPfeatDiffLIBSVMPrint\<close> without \<open>negate\<close> prints exactly what
  \<^verbatim>\<open>SCIPfeatLIBSVMPrint\<close> prints, with the same label, for a computed vector \<open>d\<close> with
  that offset whose values are the elementwise differences: slot \<open>i\<close> under the index
  \<open>i + offset + 1\<close> with the value \<open>a[i] - b[i]\<close>.
\<close>

theorem SCIPfeatDiffLIBSVMPrint_equal_offsets:
  assumes "valid_feat h a fa xs" and "valid_feat h b fb ys"
    and "depth fa \<noteq> 0" and "depth fb \<noteq> 0" and "size_feat fa = size_feat fb"
    and "SCIPfeatGetOffset h a = Inr offset" and "SCIPfeatGetOffset h b = Inr offset"
    and "valid_feat h' d fd (map2 dsub xs ys)" and "depth fd \<noteq> 0"
    and "SCIPfeatGetOffset h' d = Inr offset"
  shows "SCIPfeatDiffLIBSVMPrint h a b label False = SCIPfeatLIBSVMPrint h' d label
    \<and> SCIPfeatDiffLIBSVMPrint h a b label False
        = Inr (libsvm_line label (sparse_pairs offset (map2 dsub xs ys)))"
proof -
  have "SCIPfeatDiffLIBSVMPrint h a b label False = diff_print h a b label"
    using SCIPfeatDiffLIBSVMPrint_diff_print [OF assms(1-5), of label False] by simp
  also have "\<dots> = Inr (libsvm_line label (sparse_pairs offset (map2 dsub xs ys)))"
    using diff_print_eq [OF assms(1,2,5,6,7), of label] by simp
  finally have diff: "SCIPfeatDiffLIBSVMPrint h a b label False
      = Inr (libsvm_line label (sparse_pairs offset (map2 dsub xs ys)))" .
  have "SCIPfeatLIBSVMPrint h' d label
      = Inr (libsvm_line label (sparse_pairs offset (map2 dsub xs ys)))"
    by (rule SCIPfeatLIBSVMPrint_eq [OF assms(8,9,10)])
  with diff show ?thesis
    by simp
qed

text \<open>Two vectors of size 2, both with offset 10, and their difference vector.\<close>

theorem SCIPfeatDiffLIBSVMPrint_equal_offsets_witness:
  "valid_feat (heap2 (feat_of 2 100 25 2 1) [Fin 5, Fin 7] (feat_of 4 100 27 2 1) [Fin 1, Fin 2])
      1 (feat_of 2 100 25 2 1) [Fin 5, Fin 7]
   \<and> valid_feat (heap2 (feat_of 2 100 25 2 1) [Fin 5, Fin 7] (feat_of 4 100 27 2 1) [Fin 1, Fin 2])
      3 (feat_of 4 100 27 2 1) [Fin 1, Fin 2]
   \<and> depth (feat_of 2 100 25 2 1) \<noteq> 0 \<and> depth (feat_of 4 100 27 2 1) \<noteq> 0
   \<and> size_feat (feat_of 2 100 25 2 1) = size_feat (feat_of 4 100 27 2 1)
   \<and> SCIPfeatGetOffset
        (heap2 (feat_of 2 100 25 2 1) [Fin 5, Fin 7] (feat_of 4 100 27 2 1) [Fin 1, Fin 2]) 1
      = Inr 10
   \<and> SCIPfeatGetOffset
        (heap2 (feat_of 2 100 25 2 1) [Fin 5, Fin 7] (feat_of 4 100 27 2 1) [Fin 1, Fin 2]) 3
      = Inr 10
   \<and> valid_feat (heap1 (feat_of 2 100 25 2 1) [Fin 4, Fin 5]) 1
        (feat_of 2 100 25 2 1) (map2 dsub [Fin 5, Fin 7] [Fin 1, Fin 2])
   \<and> SCIPfeatGetOffset (heap1 (feat_of 2 100 25 2 1) [Fin 4, Fin 5]) 1 = Inr 10
   \<and> SCIPfeatDiffLIBSVMPrint
        (heap2 (feat_of 2 100 25 2 1) [Fin 5, Fin 7] (feat_of 4 100 27 2 1) [Fin 1, Fin 2])
        1 3 1 False
     = SCIPfeatLIBSVMPrint (heap1 (feat_of 2 100 25 2 1) [Fin 4, Fin 5]) 1 1
   \<and> SCIPfeatDiffLIBSVMPrint
        (heap2 (feat_of 2 100 25 2 1) [Fin 5, Fin 7] (feat_of 4 100 27 2 1) [Fin 1, Fin 2])
        1 3 1 False
     = Inr [(''%d '', [ArgInt 1]),
            (''%d:%f '', [ArgInt 11, ArgReal (Fin 4)]),
            (''%d:%f '', [ArgInt 12, ArgReal (Fin 5)]),
            (''\<newline>'', [])]"
proof -
  let ?fa = "feat_of 2 100 25 2 1" and ?xs = "[Fin 5, Fin 7]"
  let ?fb = "feat_of 4 100 27 2 1" and ?ys = "[Fin 1, Fin 2]"
  let ?h = "heap2 ?fa ?xs ?fb ?ys" and ?h' = "heap1 ?fa [Fin 4, Fin 5]"
  have va: "valid_feat ?h 1 ?fa ?xs" and vb: "valid_feat ?h 3 ?fb ?ys"
    and vd: "valid_feat ?h' 1 ?fa (map2 dsub ?xs ?ys)"
    by (simp_all add: instance_defs)
  have da: "depth ?fa \<noteq> 0" and db: "depth ?fb \<noteq> 0" and n: "size_feat ?fa = size_feat ?fb"
    by (simp_all add: feat_of_def)
  have oa: "SCIPfeatGetOffset ?h 1 = Inr 10" and ob: "SCIPfeatGetOffset ?h 3 = Inr 10"
    and od: "SCIPfeatGetOffset ?h' 1 = Inr 10"
    by (simp_all add: instance_defs)
  note inst = SCIPfeatDiffLIBSVMPrint_equal_offsets [OF va vb da db n oa ob vd da od, of 1]
  from inst have same: "SCIPfeatDiffLIBSVMPrint ?h 1 3 1 False = SCIPfeatLIBSVMPrint ?h' 1 1"
    by (rule conjunct1)
  from inst have "SCIPfeatDiffLIBSVMPrint ?h 1 3 1 False
      = Inr (libsvm_line 1 (sparse_pairs 10 (map2 dsub ?xs ?ys)))"
    by (rule conjunct2)
  then have out: "SCIPfeatDiffLIBSVMPrint ?h 1 3 1 False
     = Inr [(''%d '', [ArgInt 1]),
            (''%d:%f '', [ArgInt 11, ArgReal (Fin 4)]),
            (''%d:%f '', [ArgInt 12, ArgReal (Fin 5)]),
            (''\<newline>'', [])]"
    by (simp add: libsvm_line_def sparse_pairs_def)
  from va vb da db n oa ob vd od same out show ?thesis
    by (simp only: simp_thms)
qed

text \<open>
  C8. For computed vectors of equal size and distinct offsets, the line has two blocks:
  the values of \<open>A\<close> as they are under the indices \<open>i + offsetA + 1\<close>, and the values of
  \<open>B\<close> negated under the indices \<open>i + offsetB + 1\<close>, the block with the smaller offset
  first; the indices of the line are strictly increasing. \<open>A\<close> is the first vector when
  \<open>negate\<close> is not set, and the second (with the label negated) when it is.
\<close>

theorem SCIPfeatDiffLIBSVMPrint_distinct_offsets:
  assumes "valid_feat h a fa xs" and "valid_feat h b fb ys"
    and "depth fa \<noteq> 0" and "depth fb \<noteq> 0" and "size_feat fa = size_feat fb"
    and "SCIPfeatGetOffset h a = Inr offsetA" and "SCIPfeatGetOffset h b = Inr offsetB"
    and "offsetA \<noteq> offsetB"
  shows "(let blocks = (if offsetA < offsetB
                        then sparse_pairs offsetA xs @ sparse_pairs offsetB (map dneg ys)
                        else sparse_pairs offsetB (map dneg ys) @ sparse_pairs offsetA xs)
          in SCIPfeatDiffLIBSVMPrint h a b label False = Inr (libsvm_line label blocks)
           \<and> SCIPfeatDiffLIBSVMPrint h b a label True = Inr (libsvm_line (- label) blocks)
           \<and> sorted_wrt (<) (map fst blocks))"
proof -
  let ?blocks = "if offsetA < offsetB
                        then sparse_pairs offsetA xs @ sparse_pairs offsetB (map dneg ys)
                        else sparse_pairs offsetB (map dneg ys) @ sparse_pairs offsetA xs"
  have eq: "diff_print h a b l = Inr (libsvm_line l ?blocks)" for l
    using diff_print_eq [OF assms(1,2,5,6,7), of l] assms(8) by simp
  have plain: "SCIPfeatDiffLIBSVMPrint h a b label False = Inr (libsvm_line label ?blocks)"
    using SCIPfeatDiffLIBSVMPrint_diff_print [OF assms(1-5), of label False] eq by simp
  have swapped: "SCIPfeatDiffLIBSVMPrint h b a label True = Inr (libsvm_line (- label) ?blocks)"
    using SCIPfeatDiffLIBSVMPrint_diff_print
      [OF assms(2) assms(1) assms(4) assms(3) assms(5) [symmetric], of label True] eq
    by simp
  from assms(1,2) have fa: "feats h a = Some fa" and fb: "feats h b = Some fb"
    and lx: "int (length xs) = size_feat fa" and ly: "int (length ys) = size_feat fa"
    by (simp_all add: valid_feat_def assms(5))
  have da: "size_feat fa dvd offsetA"
    by (rule SCIPfeatGetOffset_dvd [OF assms(6) fa])
  have db: "size_feat fa dvd offsetB"
    using SCIPfeatGetOffset_dvd [OF assms(7) fb] by (simp add: assms(5))
  have sorted: "sorted_wrt (<) (map fst ?blocks)"
  proof (cases "offsetA < offsetB")
    case True
    with da db have "offsetA + int (length xs) \<le> offsetB"
      by (simp add: lx offset_gap)
    with True show ?thesis
      by (simp only: if_True sorted_indices_two_blocks)
  next
    case False
    with assms(8) have "offsetB < offsetA"
      by simp
    with da db have "offsetB + int (length (map dneg ys)) \<le> offsetA"
      by (simp add: ly offset_gap)
    with False show ?thesis
      by (simp only: if_False sorted_indices_two_blocks)
  qed
  from plain swapped sorted show ?thesis
    by (simp only: Let_def simp_thms)
qed

text \<open>Two vectors of size 2: \<open>A\<close> with offset 12 and \<open>B\<close> with offset 10, so the block of \<open>B\<close> comes first.\<close>

theorem SCIPfeatDiffLIBSVMPrint_distinct_offsets_witness:
  "valid_feat (heap2 (feat_of 2 100 35 2 0) [Fin 5, Fin 7] (feat_of 4 100 25 2 1) [Fin 1, Fin 2])
      1 (feat_of 2 100 35 2 0) [Fin 5, Fin 7]
   \<and> valid_feat (heap2 (feat_of 2 100 35 2 0) [Fin 5, Fin 7] (feat_of 4 100 25 2 1) [Fin 1, Fin 2])
      3 (feat_of 4 100 25 2 1) [Fin 1, Fin 2]
   \<and> depth (feat_of 2 100 35 2 0) \<noteq> 0 \<and> depth (feat_of 4 100 25 2 1) \<noteq> 0
   \<and> size_feat (feat_of 2 100 35 2 0) = size_feat (feat_of 4 100 25 2 1)
   \<and> SCIPfeatGetOffset
        (heap2 (feat_of 2 100 35 2 0) [Fin 5, Fin 7] (feat_of 4 100 25 2 1) [Fin 1, Fin 2]) 1
      = Inr 12
   \<and> SCIPfeatGetOffset
        (heap2 (feat_of 2 100 35 2 0) [Fin 5, Fin 7] (feat_of 4 100 25 2 1) [Fin 1, Fin 2]) 3
      = Inr 10
   \<and> (12::int) \<noteq> 10
   \<and> SCIPfeatDiffLIBSVMPrint
        (heap2 (feat_of 2 100 35 2 0) [Fin 5, Fin 7] (feat_of 4 100 25 2 1) [Fin 1, Fin 2])
        1 3 1 False
     = Inr [(''%d '', [ArgInt 1]),
            (''%d:%f '', [ArgInt 11, ArgReal (Fin (- 1))]),
            (''%d:%f '', [ArgInt 12, ArgReal (Fin (- 2))]),
            (''%d:%f '', [ArgInt 13, ArgReal (Fin 5)]),
            (''%d:%f '', [ArgInt 14, ArgReal (Fin 7)]),
            (''\<newline>'', [])]
   \<and> SCIPfeatDiffLIBSVMPrint
        (heap2 (feat_of 2 100 35 2 0) [Fin 5, Fin 7] (feat_of 4 100 25 2 1) [Fin 1, Fin 2])
        3 1 1 True
     = Inr [(''%d '', [ArgInt (- 1)]),
            (''%d:%f '', [ArgInt 11, ArgReal (Fin (- 1))]),
            (''%d:%f '', [ArgInt 12, ArgReal (Fin (- 2))]),
            (''%d:%f '', [ArgInt 13, ArgReal (Fin 5)]),
            (''%d:%f '', [ArgInt 14, ArgReal (Fin 7)]),
            (''\<newline>'', [])]
   \<and> sorted_wrt (<) [11, 12, 13, 14 :: int]"
proof -
  let ?fa = "feat_of 2 100 35 2 0" and ?xs = "[Fin 5, Fin 7]"
  let ?fb = "feat_of 4 100 25 2 1" and ?ys = "[Fin 1, Fin 2]"
  let ?h = "heap2 ?fa ?xs ?fb ?ys"
  have va: "valid_feat ?h 1 ?fa ?xs" and vb: "valid_feat ?h 3 ?fb ?ys"
    by (simp_all add: instance_defs)
  have da: "depth ?fa \<noteq> 0" and db: "depth ?fb \<noteq> 0" and n: "size_feat ?fa = size_feat ?fb"
    by (simp_all add: feat_of_def)
  have oa: "SCIPfeatGetOffset ?h 1 = Inr 12" and ob: "SCIPfeatGetOffset ?h 3 = Inr 10"
    by (simp_all add: instance_defs)
  have ne: "(12::int) \<noteq> 10"
    by simp
  have blocks: "(if (12::int) < 10
        then sparse_pairs 12 ?xs @ sparse_pairs 10 (map dneg ?ys)
        else sparse_pairs 10 (map dneg ?ys) @ sparse_pairs 12 ?xs)
      = [(11, Fin (- 1)), (12, Fin (- 2)), (13, Fin 5), (14, Fin 7)]"
    by (simp add: sparse_pairs_def)
  note inst = SCIPfeatDiffLIBSVMPrint_distinct_offsets [OF va vb da db n oa ob ne, of 1,
      unfolded Let_def blocks]
  from inst have plain: "SCIPfeatDiffLIBSVMPrint ?h 1 3 1 False
     = Inr [(''%d '', [ArgInt 1]),
            (''%d:%f '', [ArgInt 11, ArgReal (Fin (- 1))]),
            (''%d:%f '', [ArgInt 12, ArgReal (Fin (- 2))]),
            (''%d:%f '', [ArgInt 13, ArgReal (Fin 5)]),
            (''%d:%f '', [ArgInt 14, ArgReal (Fin 7)]),
            (''\<newline>'', [])]"
    by (simp add: libsvm_line_def)
  from inst have swapped: "SCIPfeatDiffLIBSVMPrint ?h 3 1 1 True
     = Inr [(''%d '', [ArgInt (- 1)]),
            (''%d:%f '', [ArgInt 11, ArgReal (Fin (- 1))]),
            (''%d:%f '', [ArgInt 12, ArgReal (Fin (- 2))]),
            (''%d:%f '', [ArgInt 13, ArgReal (Fin 5)]),
            (''%d:%f '', [ArgInt 14, ArgReal (Fin 7)]),
            (''\<newline>'', [])]"
    by (simp add: libsvm_line_def)
  from inst have sorted: "sorted_wrt (<) [11, 12, 13, 14 :: int]"
    by simp
  from va vb da db n oa ob ne plain swapped sorted show ?thesis
    by (simp only: simp_thms)
qed

subsection \<open>The feature calculation\<close>

lemma length_assign_slots [simp]: "length (assign_slots K xs as) = length xs"
  unfolding assign_slots_def by (induction as arbitrary: xs) auto

lemma assign_slots_Cons:
  "assign_slots K xs ((s, v) # as) = assign_slots K (xs[nat (FEATNODESEL K s) := v]) as"
  by (simp add: assign_slots_def)

lemma assign_slots_snoc:
  "assign_slots K xs (as @ [(s, v)]) = (assign_slots K xs as)[nat (FEATNODESEL K s) := v]"
  by (simp add: assign_slots_def)

lemma store_assignments_valid:
  assumes "feats h feat = Some f" and "slots_in_range K (int (length xs))"
    and "arrays h (vals f) = Some xs"
  shows "store_assignments K feat as h =
           Inr (h\<lparr>arrays := (arrays h)(vals f \<mapsto> assign_slots K xs as)\<rparr>)"
  using assms
proof (induction as arbitrary: h xs)
  case Nil
  then show ?case
    by (simp add: assign_slots_def fun_upd_idem)
next
  case (Cons a as)
  obtain s v where a: "a = (s, v)"
    by (cases a)
  let ?xs = "xs[nat (FEATNODESEL K s) := v]"
  let ?h = "h\<lparr>arrays := (arrays h)(vals f \<mapsto> ?xs)\<rparr>"
  from Cons.prems have st: "vals_store feat (FEATNODESEL K s) v h = Inr ?h"
    by (simp add: vals_store_def slots_in_range_def)
  have "store_assignments K feat as ?h =
      Inr (h\<lparr>arrays := (arrays h)(vals f \<mapsto> assign_slots K ?xs as)\<rparr>)"
    using Cons.IH [of ?h ?xs] Cons.prems by (simp add: fun_upd_def cong: if_cong)
  with st show ?case
    by (simp add: a assign_slots_Cons fun_upd_def)
qed

lemma assign_slots_nth:
  assumes "inj (FEATNODESEL K)" and "slots_in_range K (int (length xs))"
  shows "assign_slots K xs as ! nat (FEATNODESEL K s) =
           (case map_of (rev as) s of None \<Rightarrow> xs ! nat (FEATNODESEL K s) | Some v \<Rightarrow> v)"
proof (induction as rule: rev_induct)
  case Nil
  show ?case
    by (simp add: assign_slots_def)
next
  case (snoc a as)
  obtain t v where a: "a = (t, v)"
    by (cases a)
  from assms(2) have range: "0 \<le> FEATNODESEL K u" "nat (FEATNODESEL K u) < length xs" for u
    by (simp_all add: slots_in_range_def nat_less_iff)
  have eq: "nat (FEATNODESEL K t) = nat (FEATNODESEL K s) \<longleftrightarrow> t = s"
    using range(1) [of s] range(1) [of t] assms(1) by (auto simp: inj_eq eq_nat_nat_iff)
  show ?case
    by (simp add: a assign_slots_snoc nth_list_update range eq snoc.IH)
qed

lemma SCIPcalcNodeselFeat_eq:
  assumes "valid_feat h feat f xs" and "slots_in_range K (size_feat f)"
    and "nodeGetDepth node \<noteq> 0" and "maxdepth f \<noteq> 0"
    and "node_boundchgs node = Some (boundchg # others)"
    and "boundchg_boundchgtype boundchg = SCIP_BOUNDCHGTYPE_BRANCHING"
  shows "SCIPcalcNodeselFeat K scip node feat h =
     Inr \<lparr>feats = (feats h)(feat \<mapsto>
              f\<lparr>depth := nodeGetDepth node, boundtype := boundchg_boundtype boundchg\<rparr>),
          arrays = (arrays h)(vals f \<mapsto>
              assign_slots K xs
                (nodesel_assignments K scip node boundchg (boundchg_boundtype boundchg)
                   (maxdepth f)))\<rparr>"
proof -
  let ?f = "f\<lparr>depth := nodeGetDepth node, boundtype := boundchg_boundtype boundchg\<rparr>"
  let ?h1 = "h\<lparr>feats := (feats h)(feat \<mapsto> ?f)\<rparr>"
  from assms(1) have f: "feats h feat = Some f" and nn: "feat \<noteq> NULL"
    and xs: "arrays h (vals f) = Some xs" and len: "int (length xs) = size_feat f"
    by (simp_all add: valid_feat_def)
  have h1: "feat_assign feat
      (\<lambda>f. f\<lparr>depth := nodeGetDepth node, boundtype := boundchg_boundtype boundchg\<rparr>) h = Inr ?h1"
    by (simp add: feat_assign_def f)
  have "store_assignments K feat
          (nodesel_assignments K scip node boundchg (boundchg_boundtype boundchg) (maxdepth f)) ?h1
      = Inr (?h1\<lparr>arrays := (arrays ?h1)(vals ?f \<mapsto> assign_slots K xs
          (nodesel_assignments K scip node boundchg (boundchg_boundtype boundchg) (maxdepth f)))\<rparr>)"
    by (rule store_assignments_valid) (simp_all add: xs len assms(2))
  then show ?thesis
    by (simp add: SCIPcalcNodeselFeat_def nn f assms(3-6) h1)
qed

lemma slot_LOWERBOUND:
  "map_of (rev (nodesel_assignments K scip node boundchg bt md)) SCIP_FEATNODESEL_LOWERBOUND
     = Some (ddiv (nodeGetLowerbound node) (rootlowerbound scip))"
  by (simp add: nodesel_assignments_def Let_def)

lemma slot_ESTIMATE:
  "map_of (rev (nodesel_assignments K scip node boundchg bt md)) SCIP_FEATNODESEL_ESTIMATE
     = Some (ddiv (nodeGetEstimate node) (rootlowerbound scip))"
  by (simp add: nodesel_assignments_def Let_def)

lemma slot_RELATIVEBOUND:
  "map_of (rev (nodesel_assignments K scip node boundchg bt md)) SCIP_FEATNODESEL_RELATIVEBOUND
     = (if cutoffbound scip - getLowerbound scip \<noteq> 0
        then Some (ddiv (nodeGetLowerbound node - getLowerbound scip)
                     (cutoffbound scip - getLowerbound scip))
        else None)"
  by (simp add: nodesel_assignments_def Let_def)

lemma slot_OBJCONSTR:
  "map_of (rev (nodesel_assignments K scip node boundchg bt md))
       SCIP_FEATNODESEL_BRANCHVAR_OBJCONSTR
     = Some (ddiv (colGetObj (varGetCol (boundchg_var boundchg)))
               (real_of_int (varcolsize (varGetCol (boundchg_var boundchg)))))"
  by (simp add: nodesel_assignments_def Let_def)

lemma rootlowerbound_nonzero: "rootlowerbound scip \<noteq> 0"
  by (simp add: rootlowerbound_def)

lemma SCIPcalcNodeselFeat_slot:
  assumes "valid_feat h feat f xs" and "inj (FEATNODESEL K)"
    and "slots_in_range K (size_feat f)"
    and "nodeGetDepth node \<noteq> 0" and "maxdepth f \<noteq> 0"
    and "node_boundchgs node = Some (boundchg # others)"
    and "boundchg_boundchgtype boundchg = SCIP_BOUNDCHGTYPE_BRANCHING"
  shows "\<exists>h'. SCIPcalcNodeselFeat K scip node feat h = Inr h'
     \<and> (\<forall>s. vals_load h' feat (FEATNODESEL K s) =
          (case map_of (rev (nodesel_assignments K scip node boundchg
                               (boundchg_boundtype boundchg) (maxdepth f))) s of
             None \<Rightarrow> vals_load h feat (FEATNODESEL K s)
           | Some v \<Rightarrow> Inr v))"
proof -
  let ?as = "nodesel_assignments K scip node boundchg (boundchg_boundtype boundchg) (maxdepth f)"
  let ?h' = "\<lparr>feats = (feats h)(feat \<mapsto>
              f\<lparr>depth := nodeGetDepth node, boundtype := boundchg_boundtype boundchg\<rparr>),
          arrays = (arrays h)(vals f \<mapsto> assign_slots K xs ?as)\<rparr>"
  from assms(1) have f: "feats h feat = Some f"
    and xs: "arrays h (vals f) = Some xs" and len: "int (length xs) = size_feat f"
    by (simp_all add: valid_feat_def)
  from assms(3) len have range: "slots_in_range K (int (length xs))"
    by simp
  then have bounds: "0 \<le> FEATNODESEL K s" "FEATNODESEL K s < int (length xs)" for s
    by (simp_all add: slots_in_range_def)
  have calc: "SCIPcalcNodeselFeat K scip node feat h = Inr ?h'"
    by (rule SCIPcalcNodeselFeat_eq [OF assms(1,3-7)])
  have "vals_load ?h' feat (FEATNODESEL K s) =
          (case map_of (rev ?as) s of
             None \<Rightarrow> vals_load h feat (FEATNODESEL K s)
           | Some v \<Rightarrow> Inr v)" for s
    using bounds [of s] assign_slots_nth [OF assms(2) range, of ?as s]
    by (simp add: vals_load_def f xs split: option.splits)
  with calc show ?thesis
    by blast
qed

text \<open>Facts about the concrete instances.\<close>

lemma inj_slot_number: "inj slot_number"
proof (rule injI)
  fix s t
  assume "slot_number s = slot_number t"
  then show "s = t"
    by (cases s; cases t) simp_all
qed

lemma slot_number_range: "0 \<le> slot_number s \<and> slot_number s < 13"
  by (cases s) simp_all

lemma fresh13_valid:
  "valid_feat fresh13 1 (feat_of 2 100 0 13 0) (replicate 13 (Fin 0))"
  by (simp add: fresh13_def instance_defs)

lemma consts13_inj: "inj (FEATNODESEL consts13)"
  by (simp add: consts13_def inj_slot_number)

lemma consts13_range: "slots_in_range consts13 (size_feat (feat_of 2 100 0 13 0))"
  by (simp add: slots_in_range_def consts13_def feat_of_def slot_number_range)

lemma consts13_slot: "FEATNODESEL consts13 = slot_number"
  by (simp add: consts13_def)

lemma node_of_depth: "nodeGetDepth (node_of lb est col) \<noteq> 0"
  by (simp add: node_of_def)

lemma fresh13_maxdepth: "maxdepth (feat_of 2 100 0 13 0) \<noteq> 0"
  by (simp add: feat_of_def)

lemma node_of_boundchgs:
  "node_boundchgs (node_of lb est col) =
     Some (\<lparr>boundchg_var = var_of col, boundchg_newbound = 3,
            boundchg_boundchgtype = SCIP_BOUNDCHGTYPE_BRANCHING,
            boundchg_boundtype = 1\<rparr> # [])"
  by (simp add: node_of_def)

lemma fresh13_load: "vals_load fresh13 1 (slot_number s) = Inr (Fin 0)"
  using slot_number_range [of s]
  by (simp add: vals_load_def fresh13_def heap1_def feat_of_def nat_less_iff)

text \<open>  C4. On a valid input (a vector in the store, slot numbers that are distinct indices into its values, a node at
  a depth other than 0 whose first bound change is a branching, and \<open>maxdepth \<noteq> 0\<close>), the calculation returns, and afterwards the slot
  \<open>LOWERBOUND\<close> holds the node's lower bound divided by \<open>rootlowerbound\<close> and the slot
  \<open>ESTIMATE\<close> the node's estimate divided by the same \<open>rootlowerbound\<close>, which is the
  root lower bound when that is not zero and 0.1 when it is; so the divisor is never zero
  and both slots hold finite numbers.\<close>

theorem SCIPcalcNodeselFeat_lowerbound_estimate:
  assumes "valid_feat h feat f xs" and "inj (FEATNODESEL K)"
    and "slots_in_range K (size_feat f)"
    and "nodeGetDepth node \<noteq> 0" and "maxdepth f \<noteq> 0"
    and "node_boundchgs node = Some (boundchg # others)"
    and "boundchg_boundchgtype boundchg = SCIP_BOUNDCHGTYPE_BRANCHING"
  shows "\<exists>h'. SCIPcalcNodeselFeat K scip node feat h = Inr h'
     \<and> vals_load h' feat (FEATNODESEL K SCIP_FEATNODESEL_LOWERBOUND)
         = Inr (Fin (nodeGetLowerbound node / rootlowerbound scip))
     \<and> vals_load h' feat (FEATNODESEL K SCIP_FEATNODESEL_ESTIMATE)
         = Inr (Fin (nodeGetEstimate node / rootlowerbound scip))
     \<and> rootlowerbound scip
         = (if getLowerboundRoot scip = 0 then 0.1 else getLowerboundRoot scip)
     \<and> rootlowerbound scip \<noteq> 0"
proof -
  from SCIPcalcNodeselFeat_slot [OF assms, of scip]
  obtain h' where calc: "SCIPcalcNodeselFeat K scip node feat h = Inr h'"
    and slot: "\<And>s. vals_load h' feat (FEATNODESEL K s) =
          (case map_of (rev (nodesel_assignments K scip node boundchg
                               (boundchg_boundtype boundchg) (maxdepth f))) s of
             None \<Rightarrow> vals_load h feat (FEATNODESEL K s)
           | Some v \<Rightarrow> Inr v)"
    by blast
  have "vals_load h' feat (FEATNODESEL K SCIP_FEATNODESEL_LOWERBOUND)
         = Inr (Fin (nodeGetLowerbound node / rootlowerbound scip))"
    by (simp add: slot slot_LOWERBOUND ddiv_def rootlowerbound_nonzero)
  moreover have "vals_load h' feat (FEATNODESEL K SCIP_FEATNODESEL_ESTIMATE)
         = Inr (Fin (nodeGetEstimate node / rootlowerbound scip))"
    by (simp add: slot slot_ESTIMATE ddiv_def rootlowerbound_nonzero)
  moreover have "rootlowerbound scip
         = (if getLowerboundRoot scip = 0 then 0.1 else getLowerboundRoot scip)"
    by (simp add: rootlowerbound_def)
  ultimately show ?thesis
    using calc rootlowerbound_nonzero [of scip] by blast
qed

text \<open>A root lower bound of 0, a node lower bound of 14 and an estimate of 16: the slots hold
  140 and 160.\<close>

theorem SCIPcalcNodeselFeat_lowerbound_estimate_witness:
  "valid_feat fresh13 1 (feat_of 2 100 0 13 0) (replicate 13 (Fin 0))
   \<and> inj (FEATNODESEL consts13)
   \<and> slots_in_range consts13 (size_feat (feat_of 2 100 0 13 0))
   \<and> nodeGetDepth (node_of 14 16 (col_of 3 2)) \<noteq> 0
   \<and> maxdepth (feat_of 2 100 0 13 0) \<noteq> 0
   \<and> getLowerboundRoot (scip_of 0 10 50 0) = 0
   \<and> (\<exists>h'. SCIPcalcNodeselFeat consts13 (scip_of 0 10 50 0) (node_of 14 16 (col_of 3 2)) 1
              fresh13 = Inr h'
        \<and> vals_load h' 1 (slot_number SCIP_FEATNODESEL_LOWERBOUND) = Inr (Fin 140)
        \<and> vals_load h' 1 (slot_number SCIP_FEATNODESEL_ESTIMATE) = Inr (Fin 160))"
proof -
  let ?scip = "scip_of 0 10 50 0" and ?node = "node_of 14 16 (col_of 3 2)"
  from SCIPcalcNodeselFeat_lowerbound_estimate
    [OF fresh13_valid consts13_inj consts13_range node_of_depth [of 14 16 "col_of 3 2"]
      fresh13_maxdepth node_of_boundchgs [of 14 16 "col_of 3 2"],
      where scip = ?scip]
  obtain h' where calc: "SCIPcalcNodeselFeat consts13 ?scip ?node 1 fresh13 = Inr h'"
    and lb: "vals_load h' 1 (FEATNODESEL consts13 SCIP_FEATNODESEL_LOWERBOUND)
         = Inr (Fin (nodeGetLowerbound ?node / rootlowerbound ?scip))"
    and est: "vals_load h' 1 (FEATNODESEL consts13 SCIP_FEATNODESEL_ESTIMATE)
         = Inr (Fin (nodeGetEstimate ?node / rootlowerbound ?scip))"
    by auto
  have root: "getLowerboundRoot ?scip = 0" and r: "rootlowerbound ?scip = 1 / 10"
    by (simp_all add: rootlowerbound_def scip_of_def)
  have n: "nodeGetLowerbound ?node = 14" "nodeGetEstimate ?node = 16"
    by (simp_all add: node_of_def)
  from lb have lb': "vals_load h' 1 (slot_number SCIP_FEATNODESEL_LOWERBOUND) = Inr (Fin 140)"
    by (simp add: r n consts13_slot)
  from est have est': "vals_load h' 1 (slot_number SCIP_FEATNODESEL_ESTIMATE) = Inr (Fin 160)"
    by (simp add: r n consts13_slot)
  from calc lb' est' root show ?thesis
    using fresh13_valid consts13_inj consts13_range node_of_depth [of 14 16 "col_of 3 2"]
      fresh13_maxdepth
    by blast
qed

text \<open>  C3. On a valid input, the slot \<open>RELATIVEBOUND\<close> holds
  \<open>(nodelowerbound - lowerbound) / (cutoffbound - lowerbound)\<close> when that denominator is not
  zero, and otherwise the value it held before the call (0 in a vector that was filled with
  zeros), where \<open>cutoffbound\<close> is
  \<open>lowerbound + 0.2 * (cutoff - lowerbound)\<close> when no solution has been found and the cutoff
  bound itself otherwise.\<close>

theorem SCIPcalcNodeselFeat_relativebound:
  assumes "valid_feat h feat f xs" and "inj (FEATNODESEL K)"
    and "slots_in_range K (size_feat f)"
    and "nodeGetDepth node \<noteq> 0" and "maxdepth f \<noteq> 0"
    and "node_boundchgs node = Some (boundchg # others)"
    and "boundchg_boundchgtype boundchg = SCIP_BOUNDCHGTYPE_BRANCHING"
  shows "\<exists>h'. SCIPcalcNodeselFeat K scip node feat h = Inr h'
     \<and> vals_load h' feat (FEATNODESEL K SCIP_FEATNODESEL_RELATIVEBOUND)
         = (if cutoffbound scip - getLowerbound scip \<noteq> 0
            then Inr (Fin ((nodeGetLowerbound node - getLowerbound scip)
                            / (cutoffbound scip - getLowerbound scip)))
            else vals_load h feat (FEATNODESEL K SCIP_FEATNODESEL_RELATIVEBOUND))
     \<and> cutoffbound scip
         = (if getNSolsFound scip = 0
            then getLowerbound scip + 0.2 * (getCutoffbound scip - getLowerbound scip)
            else getCutoffbound scip)"
proof -
  from SCIPcalcNodeselFeat_slot [OF assms, of scip]
  obtain h' where calc: "SCIPcalcNodeselFeat K scip node feat h = Inr h'"
    and slot: "\<And>s. vals_load h' feat (FEATNODESEL K s) =
          (case map_of (rev (nodesel_assignments K scip node boundchg
                               (boundchg_boundtype boundchg) (maxdepth f))) s of
             None \<Rightarrow> vals_load h feat (FEATNODESEL K s)
           | Some v \<Rightarrow> Inr v)"
    by blast
  have "vals_load h' feat (FEATNODESEL K SCIP_FEATNODESEL_RELATIVEBOUND)
         = (if cutoffbound scip - getLowerbound scip \<noteq> 0
            then Inr (Fin ((nodeGetLowerbound node - getLowerbound scip)
                            / (cutoffbound scip - getLowerbound scip)))
            else vals_load h feat (FEATNODESEL K SCIP_FEATNODESEL_RELATIVEBOUND))"
    by (simp add: slot slot_RELATIVEBOUND ddiv_def)
  moreover have "cutoffbound scip
         = (if getNSolsFound scip = 0
            then getLowerbound scip + 0.2 * (getCutoffbound scip - getLowerbound scip)
            else getCutoffbound scip)"
    by (simp add: cutoffbound_def)
  ultimately show ?thesis
    using calc by blast
qed

text \<open>The scenario of the spec: a global lower bound of 10, a cutoff bound of 50 and no
  solution give the adjusted cutoff 18; a node lower bound of 14 then gives \<open>4 / 8\<close>. With
  a cutoff bound of 10 the denominator is zero and the slot keeps its 0.\<close>

theorem SCIPcalcNodeselFeat_relativebound_witness:
  "valid_feat fresh13 1 (feat_of 2 100 0 13 0) (replicate 13 (Fin 0))
   \<and> inj (FEATNODESEL consts13)
   \<and> slots_in_range consts13 (size_feat (feat_of 2 100 0 13 0))
   \<and> nodeGetDepth (node_of 14 16 (col_of 3 2)) \<noteq> 0
   \<and> maxdepth (feat_of 2 100 0 13 0) \<noteq> 0
   \<and> cutoffbound (scip_of 0 10 50 0) = 18
   \<and> (\<exists>h'. SCIPcalcNodeselFeat consts13 (scip_of 0 10 50 0) (node_of 14 16 (col_of 3 2)) 1
              fresh13 = Inr h'
        \<and> vals_load h' 1 (slot_number SCIP_FEATNODESEL_RELATIVEBOUND) = Inr (Fin (1 / 2)))
   \<and> cutoffbound (scip_of 0 10 10 0) - getLowerbound (scip_of 0 10 10 0) = 0
   \<and> (\<exists>h'. SCIPcalcNodeselFeat consts13 (scip_of 0 10 10 0) (node_of 14 16 (col_of 3 2)) 1
              fresh13 = Inr h'
        \<and> vals_load h' 1 (slot_number SCIP_FEATNODESEL_RELATIVEBOUND) = Inr (Fin 0))"
proof -
  let ?scip = "scip_of 0 10 50 0" and ?tight = "scip_of 0 10 10 0"
  let ?node = "node_of 14 16 (col_of 3 2)"
  have c: "cutoffbound ?scip = 18" and l: "getLowerbound ?scip = 10"
    by (simp_all add: cutoffbound_def scip_of_def)
  have z: "cutoffbound ?tight - getLowerbound ?tight = 0"
    by (simp add: cutoffbound_def scip_of_def)
  have n: "nodeGetLowerbound ?node = 14"
    by (simp add: node_of_def)
  from SCIPcalcNodeselFeat_relativebound
    [OF fresh13_valid consts13_inj consts13_range node_of_depth [of 14 16 "col_of 3 2"]
      fresh13_maxdepth node_of_boundchgs [of 14 16 "col_of 3 2"],
      where scip = ?scip]
  obtain h1 where calc1: "SCIPcalcNodeselFeat consts13 ?scip ?node 1 fresh13 = Inr h1"
    and rb1: "vals_load h1 1 (FEATNODESEL consts13 SCIP_FEATNODESEL_RELATIVEBOUND)
         = (if cutoffbound ?scip - getLowerbound ?scip \<noteq> 0
            then Inr (Fin ((nodeGetLowerbound ?node - getLowerbound ?scip)
                            / (cutoffbound ?scip - getLowerbound ?scip)))
            else vals_load fresh13 1 (FEATNODESEL consts13 SCIP_FEATNODESEL_RELATIVEBOUND))"
    by auto
  from rb1 have rb1': "vals_load h1 1 (slot_number SCIP_FEATNODESEL_RELATIVEBOUND)
      = Inr (Fin (1 / 2))"
    by (simp add: c l n consts13_slot)
  from SCIPcalcNodeselFeat_relativebound
    [OF fresh13_valid consts13_inj consts13_range node_of_depth [of 14 16 "col_of 3 2"]
      fresh13_maxdepth node_of_boundchgs [of 14 16 "col_of 3 2"],
      where scip = ?tight]
  obtain h2 where calc2: "SCIPcalcNodeselFeat consts13 ?tight ?node 1 fresh13 = Inr h2"
    and rb2: "vals_load h2 1 (FEATNODESEL consts13 SCIP_FEATNODESEL_RELATIVEBOUND)
         = (if cutoffbound ?tight - getLowerbound ?tight \<noteq> 0
            then Inr (Fin ((nodeGetLowerbound ?node - getLowerbound ?tight)
                            / (cutoffbound ?tight - getLowerbound ?tight)))
            else vals_load fresh13 1 (FEATNODESEL consts13 SCIP_FEATNODESEL_RELATIVEBOUND))"
    by auto
  from rb2 have rb2': "vals_load h2 1 (slot_number SCIP_FEATNODESEL_RELATIVEBOUND)
      = Inr (Fin 0)"
    using fresh13_load [of SCIP_FEATNODESEL_RELATIVEBOUND] by (simp add: z consts13_slot)
  from c z calc1 rb1' calc2 rb2' show ?thesis
    using fresh13_valid consts13_inj consts13_range node_of_depth [of 14 16 "col_of 3 2"]
      fresh13_maxdepth
    by blast
qed

text \<open>  C1 (what the code does). \<^verbatim>\<open>varcolsize\<close> is an \<^verbatim>\<open>int\<close>, so the guard
  \<^verbatim>\<open>if( varcolsize == 0 ) varcolsize = 0.1;\<close> stores 0 again. When the column of the
  branching variable has no nonzero, the divisor of \<^verbatim>\<open>varobj / varcolsize\<close> is zero, and
  the slot \<open>OBJCONSTR\<close> holds an infinity or NaN, never the objective coefficient divided
  by 0.1.\<close>

theorem SCIPcalcNodeselFeat_objconstr_zero_column:
  assumes "valid_feat h feat f xs" and "inj (FEATNODESEL K)"
    and "slots_in_range K (size_feat f)"
    and "nodeGetDepth node \<noteq> 0" and "maxdepth f \<noteq> 0"
    and "node_boundchgs node = Some (boundchg # others)"
    and "boundchg_boundchgtype boundchg = SCIP_BOUNDCHGTYPE_BRANCHING"
    and "colGetNNonz (varGetCol (boundchg_var boundchg)) = 0"
  shows "\<exists>h'. SCIPcalcNodeselFeat K scip node feat h = Inr h'
     \<and> varcolsize (varGetCol (boundchg_var boundchg)) = 0
     \<and> vals_load h' feat (FEATNODESEL K SCIP_FEATNODESEL_BRANCHVAR_OBJCONSTR)
         = Inr (if 0 < colGetObj (varGetCol (boundchg_var boundchg)) then PInf
                else if colGetObj (varGetCol (boundchg_var boundchg)) < 0 then NInf
                else NaN)
     \<and> vals_load h' feat (FEATNODESEL K SCIP_FEATNODESEL_BRANCHVAR_OBJCONSTR)
         \<noteq> Inr (Fin (colGetObj (varGetCol (boundchg_var boundchg)) / 0.1))"
proof -
  from SCIPcalcNodeselFeat_slot [OF assms(1-7), of scip]
  obtain h' where calc: "SCIPcalcNodeselFeat K scip node feat h = Inr h'"
    and slot: "\<And>s. vals_load h' feat (FEATNODESEL K s) =
          (case map_of (rev (nodesel_assignments K scip node boundchg
                               (boundchg_boundtype boundchg) (maxdepth f))) s of
             None \<Rightarrow> vals_load h feat (FEATNODESEL K s)
           | Some v \<Rightarrow> Inr v)"
    by blast
  have size0: "varcolsize (varGetCol (boundchg_var boundchg)) = 0"
    by (simp add: varcolsize_def assms(8) double_to_int_def)
  have val: "vals_load h' feat (FEATNODESEL K SCIP_FEATNODESEL_BRANCHVAR_OBJCONSTR)
         = Inr (if 0 < colGetObj (varGetCol (boundchg_var boundchg)) then PInf
                else if colGetObj (varGetCol (boundchg_var boundchg)) < 0 then NInf
                else NaN)"
    by (simp add: slot slot_OBJCONSTR size0 ddiv_def)
  then have "vals_load h' feat (FEATNODESEL K SCIP_FEATNODESEL_BRANCHVAR_OBJCONSTR)
         \<noteq> Inr (Fin (colGetObj (varGetCol (boundchg_var boundchg)) / 0.1))"
    by simp
  with calc size0 val show ?thesis
    by blast
qed

text \<open>An objective coefficient of 3 in a column without nonzeros: the slot holds plus
  infinity (the quotient by 0.1 would be 30).\<close>

theorem SCIPcalcNodeselFeat_objconstr_zero_column_witness:
  "valid_feat fresh13 1 (feat_of 2 100 0 13 0) (replicate 13 (Fin 0))
   \<and> inj (FEATNODESEL consts13)
   \<and> slots_in_range consts13 (size_feat (feat_of 2 100 0 13 0))
   \<and> nodeGetDepth (node_of 14 16 (col_of 3 0)) \<noteq> 0
   \<and> maxdepth (feat_of 2 100 0 13 0) \<noteq> 0
   \<and> colGetNNonz (col_of 3 0) = 0 \<and> colGetObj (col_of 3 0) = 3
   \<and> varcolsize (col_of 3 0) = 0
   \<and> (\<exists>h'. SCIPcalcNodeselFeat consts13 (scip_of 0 10 50 0) (node_of 14 16 (col_of 3 0)) 1
              fresh13 = Inr h'
        \<and> vals_load h' 1 (slot_number SCIP_FEATNODESEL_BRANCHVAR_OBJCONSTR) = Inr PInf)"
proof -
  let ?scip = "scip_of 0 10 50 0" and ?node = "node_of 14 16 (col_of 3 0)"
  let ?boundchg = "\<lparr>boundchg_var = var_of (col_of 3 0), boundchg_newbound = 3,
            boundchg_boundchgtype = SCIP_BOUNDCHGTYPE_BRANCHING,
            boundchg_boundtype = 1\<rparr>"
  have col: "varGetCol (boundchg_var ?boundchg) = col_of 3 0"
    by (simp add: var_of_def)
  have nz: "colGetNNonz (col_of 3 0) = 0" and obj: "colGetObj (col_of 3 0) = 3"
    by (simp_all add: col_of_def)
  have nz': "colGetNNonz (varGetCol (boundchg_var ?boundchg)) = 0"
    by (simp only: col nz)
  have br: "boundchg_boundchgtype ?boundchg = SCIP_BOUNDCHGTYPE_BRANCHING"
    by simp
  from SCIPcalcNodeselFeat_objconstr_zero_column
    [OF fresh13_valid consts13_inj consts13_range node_of_depth [of 14 16 "col_of 3 0"]
      fresh13_maxdepth node_of_boundchgs [of 14 16 "col_of 3 0"] br nz',
      where scip = ?scip]
  obtain h' where calc: "SCIPcalcNodeselFeat consts13 ?scip ?node 1 fresh13 = Inr h'"
    and size0: "varcolsize (varGetCol (boundchg_var ?boundchg)) = 0"
    and val: "vals_load h' 1 (FEATNODESEL consts13 SCIP_FEATNODESEL_BRANCHVAR_OBJCONSTR)
         = Inr (if 0 < colGetObj (varGetCol (boundchg_var ?boundchg)) then PInf
                else if colGetObj (varGetCol (boundchg_var ?boundchg)) < 0 then NInf
                else NaN)"
    by auto
  from size0 have size0': "varcolsize (col_of 3 0) = 0"
    by (simp only: col)
  from val have val': "vals_load h' 1 (slot_number SCIP_FEATNODESEL_BRANCHVAR_OBJCONSTR)
      = Inr PInf"
    by (simp only: col obj consts13_slot) simp
  from calc size0' val' nz obj show ?thesis
    using fresh13_valid consts13_inj consts13_range node_of_depth [of 14 16 "col_of 3 0"]
      fresh13_maxdepth
    by blast
qed

text \<open>  C10. On a valid input (a vector in the store, slot numbers that are indices into its
  values, a node at a depth other than 0 whose first bound change is a branching, and
  \<open>maxdepth \<noteq> 0\<close>), the calculation returns and changes of the vector only \<open>depth\<close>,
  \<open>boundtype\<close> and the values: \<open>rootlpobj\<close>, \<open>sumobjcoeff\<close>, \<open>nconstrs\<close>, \<open>size\<close>,
  \<open>maxdepth\<close> and the pointer \<open>vals\<close> are as before, the array keeps its length, and
  nothing else in the store changes.\<close>

theorem SCIPcalcNodeselFeat_frame:
  assumes "valid_feat h feat f xs"
    and "slots_in_range K (size_feat f)"
    and "nodeGetDepth node \<noteq> 0" and "maxdepth f \<noteq> 0"
    and "node_boundchgs node = Some (boundchg # others)"
    and "boundchg_boundchgtype boundchg = SCIP_BOUNDCHGTYPE_BRANCHING"
  shows "\<exists>h' f' ys. SCIPcalcNodeselFeat K scip node feat h = Inr h'
     \<and> feats h' feat = Some f'
     \<and> rootlpobj f' = rootlpobj f \<and> sumobjcoeff f' = sumobjcoeff f
     \<and> nconstrs f' = nconstrs f \<and> size_feat f' = size_feat f \<and> maxdepth f' = maxdepth f
     \<and> vals f' = vals f
     \<and> depth f' = nodeGetDepth node \<and> boundtype f' = boundchg_boundtype boundchg
     \<and> arrays h' (vals f) = Some ys \<and> length ys = length xs
     \<and> (\<forall>p. p \<noteq> feat \<longrightarrow> feats h' p = feats h p)
     \<and> (\<forall>a. a \<noteq> vals f \<longrightarrow> arrays h' a = arrays h a)"
  by (simp add: SCIPcalcNodeselFeat_eq [OF assms])

text \<open>A vector with \<open>rootlpobj\<close> 7, \<open>sumobjcoeff\<close> 8 and \<open>nconstrs\<close> 9.\<close>

theorem SCIPcalcNodeselFeat_frame_witness:
  "valid_feat
      (heap1 ((feat_of 2 100 0 13 0)\<lparr>rootlpobj := Fin 7, sumobjcoeff := Fin 8, nconstrs := 9\<rparr>)
         (replicate 13 (Fin 0)))
      1 ((feat_of 2 100 0 13 0)\<lparr>rootlpobj := Fin 7, sumobjcoeff := Fin 8, nconstrs := 9\<rparr>)
      (replicate 13 (Fin 0))
   \<and> slots_in_range consts13
        (size_feat ((feat_of 2 100 0 13 0)\<lparr>rootlpobj := Fin 7, sumobjcoeff := Fin 8,
                                            nconstrs := 9\<rparr>))
   \<and> nodeGetDepth (node_of 14 16 (col_of 3 2)) \<noteq> 0
   \<and> maxdepth ((feat_of 2 100 0 13 0)\<lparr>rootlpobj := Fin 7, sumobjcoeff := Fin 8,
                                        nconstrs := 9\<rparr>) \<noteq> 0
   \<and> (\<exists>h' f'.
         SCIPcalcNodeselFeat consts13 (scip_of 0 10 50 0) (node_of 14 16 (col_of 3 2)) 1
           (heap1 ((feat_of 2 100 0 13 0)\<lparr>rootlpobj := Fin 7, sumobjcoeff := Fin 8,
                                           nconstrs := 9\<rparr>)
              (replicate 13 (Fin 0))) = Inr h'
       \<and> feats h' 1 = Some f'
       \<and> rootlpobj f' = Fin 7 \<and> sumobjcoeff f' = Fin 8 \<and> nconstrs f' = 9
       \<and> size_feat f' = 13 \<and> maxdepth f' = 100 \<and> depth f' = 25 \<and> boundtype f' = 1)"
proof -
  let ?f = "(feat_of 2 100 0 13 0)\<lparr>rootlpobj := Fin 7, sumobjcoeff := Fin 8, nconstrs := 9\<rparr>"
  let ?h = "heap1 ?f (replicate 13 (Fin 0))"
  let ?scip = "scip_of 0 10 50 0" and ?node = "node_of 14 16 (col_of 3 2)"
  have v: "valid_feat ?h 1 ?f (replicate 13 (Fin 0))"
    by (simp add: instance_defs)
  have r: "slots_in_range consts13 (size_feat ?f)"
    using consts13_range by (simp add: feat_of_def)
  have m: "maxdepth ?f \<noteq> 0"
    by (simp add: feat_of_def)
  from SCIPcalcNodeselFeat_frame
    [OF v r node_of_depth [of 14 16 "col_of 3 2"] m node_of_boundchgs [of 14 16 "col_of 3 2"],
      where scip = ?scip]
  obtain h' f' where calc: "SCIPcalcNodeselFeat consts13 ?scip ?node 1 ?h = Inr h'"
    and f': "feats h' 1 = Some f'"
    and same: "rootlpobj f' = rootlpobj ?f" "sumobjcoeff f' = sumobjcoeff ?f"
      "nconstrs f' = nconstrs ?f" "size_feat f' = size_feat ?f" "maxdepth f' = maxdepth ?f"
    and new: "depth f' = nodeGetDepth ?node" "boundtype f' = 1"
    by auto
  from same new have "rootlpobj f' = Fin 7 \<and> sumobjcoeff f' = Fin 8 \<and> nconstrs f' = 9
       \<and> size_feat f' = 13 \<and> maxdepth f' = 100 \<and> depth f' = 25 \<and> boundtype f' = 1"
    by (simp add: feat_of_def node_of_def)
  with calc f' v r m node_of_depth [of 14 16 "col_of 3 2"] show ?thesis
    by blast
qed

subsection \<open>Copy\<close>

lemma copy_loop_valid:
  assumes "feats h feat = Some f" and "feats h sourcefeat = Some g"
    and "vals f \<noteq> vals g"
    and "arrays h (vals f) = Some xs" and "int (length xs) = size_feat f"
  shows "arrays h (vals g) = Some ys \<Longrightarrow> length ys = length xs \<Longrightarrow> 0 \<le> i \<Longrightarrow>
    i \<le> size_feat f \<Longrightarrow>
    copy_loop feat sourcefeat i h =
      Inr (h\<lparr>arrays := (arrays h)(vals g \<mapsto> take (nat i) ys @ drop (nat i) xs)\<rparr>)"
  using assms(1,2,4)
proof (induction "nat (size_feat f - i)" arbitrary: i h ys)
  case 0
  then have "i = size_feat f"
    by simp
  with 0 assms(5) have "take (nat i) ys @ drop (nat i) xs = ys"
    by simp
  with 0 show ?case
    by (subst copy_loop.simps) (simp add: fun_upd_idem)
next
  case (Suc m)
  then have lt: "i < size_feat f" and nonneg: "0 \<le> i"
    by simp_all
  with assms(5) Suc.prems have k: "nat i < length xs" "nat i < length ys"
    by simp_all
  let ?ys = "ys[nat i := xs ! nat i]"
  let ?h = "h\<lparr>arrays := (arrays h)(vals g \<mapsto> ?ys)\<rparr>"
  have load: "vals_load h feat i = Inr (xs ! nat i)"
    using Suc.prems k nonneg by (simp add: vals_load_def)
  have store: "vals_store sourcefeat i (xs ! nat i) h = Inr ?h"
    using Suc.prems k nonneg by (simp add: vals_store_def)
  have m: "m = nat (size_feat f - (i + 1))"
    using Suc(2) by simp
  have "copy_loop feat sourcefeat (i + 1) ?h =
      Inr (?h\<lparr>arrays := (arrays ?h)(vals g \<mapsto> take (nat (i + 1)) ?ys @ drop (nat (i + 1)) xs)\<rparr>)"
    using Suc.prems lt nonneg assms(3) by (intro Suc(1) [OF m]) simp_all
  moreover have "take (nat (i + 1)) ?ys @ drop (nat (i + 1)) xs = take (nat i) ys @ drop (nat i) xs"
    using k nonneg
    by (simp add: nat_add_distrib take_Suc_conv_app_nth Cons_nth_drop_Suc)
  ultimately have rec: "copy_loop feat sourcefeat (i + 1) ?h =
      Inr (h\<lparr>arrays := (arrays h)(vals g \<mapsto> take (nat i) ys @ drop (nat i) xs)\<rparr>)"
    by (simp add: fun_upd_def cong: if_cong)
  show ?case
    using Suc.prems lt by (subst copy_loop.simps) (simp add: load store rec)
qed

lemma SCIPfeatCopy_eq:
  assumes "valid_feat h feat f xs" and "valid_feat h sourcefeat g ys"
    and "size_feat f = size_feat g" and "feat \<noteq> sourcefeat" and "vals f \<noteq> vals g"
  shows "SCIPfeatCopy feat sourcefeat h =
    Inr \<lparr>feats = (feats h)(sourcefeat \<mapsto>
             g\<lparr>maxdepth := maxdepth f, depth := depth f, size_feat := size_feat f,
               boundtype := boundtype f, rootlpobj := rootlpobj f,
               sumobjcoeff := sumobjcoeff f, nconstrs := nconstrs f\<rparr>),
         arrays = (arrays h)(vals g \<mapsto> xs)\<rparr>"
proof -
  let ?g = "g\<lparr>maxdepth := maxdepth f, depth := depth f, size_feat := size_feat f,
               boundtype := boundtype f, rootlpobj := rootlpobj f,
               sumobjcoeff := sumobjcoeff f, nconstrs := nconstrs f\<rparr>"
  let ?h1 = "h\<lparr>feats := (feats h)(sourcefeat \<mapsto> ?g)\<rparr>"
  from assms(1,2) have f: "feats h feat = Some f" and g: "feats h sourcefeat = Some g"
    and nn: "feat \<noteq> NULL" "sourcefeat \<noteq> NULL" "vals f \<noteq> NULL" "vals g \<noteq> NULL"
    and xs: "arrays h (vals f) = Some xs" and ys: "arrays h (vals g) = Some ys"
    and lx: "int (length xs) = size_feat f" and ly: "int (length ys) = size_feat g"
    by (simp_all add: valid_feat_def)
  have assign: "feat_assign sourcefeat
      (\<lambda>g. g\<lparr>maxdepth := maxdepth f, depth := depth f, size_feat := size_feat f,
               boundtype := boundtype f, rootlpobj := rootlpobj f,
               sumobjcoeff := sumobjcoeff f, nconstrs := nconstrs f\<rparr>) h = Inr ?h1"
    by (simp add: feat_assign_def g)
  have "copy_loop feat sourcefeat 0 ?h1 =
      Inr (?h1\<lparr>arrays := (arrays ?h1)(vals ?g \<mapsto> take (nat 0) ys @ drop (nat 0) xs)\<rparr>)"
    using assms(3-5) f xs ys lx ly
    by (intro copy_loop_valid [where f = f and xs = xs]) simp_all
  then have "copy_loop feat sourcefeat 0 ?h1 =
      Inr \<lparr>feats = (feats h)(sourcefeat \<mapsto> ?g), arrays = (arrays h)(vals g \<mapsto> xs)\<rparr>"
    by simp
  then show ?thesis
    by (simp add: SCIPfeatCopy_def nn f g assign)
qed

lemma feat_view_same_except:
  assumes "same_except h h' feat a" and "feats h p = Some g" and "p \<noteq> feat"
    and "vals g \<noteq> a"
  shows "feat_view h' p = feat_view h p"
  using assms by (simp add: same_except_def feat_view_def)

lemma vals_store_same_except:
  assumes "vals_store feat i v h = Inr h'" and "feats h feat = Some f"
  shows "same_except h h' feat (vals f)"
  using assms
  by (auto simp: vals_store_def same_except_def split: option.splits if_splits)

lemma feat_assign_same_except:
  assumes "feat_assign feat upd h = Inr h'"
  shows "same_except h h' feat a"
  using assms
  by (auto simp: feat_assign_def same_except_def split: option.splits)

lemma SCIPfeatSetMaxDepth_same_except:
  assumes "SCIPfeatSetMaxDepth feat v h = Inr h'"
  shows "same_except h h' feat a"
  using assms
  by (auto simp: SCIPfeatSetMaxDepth_def intro: feat_assign_same_except split: if_splits)

text \<open>  C9. For two distinct vectors in the store, each with its own value array, and of equal
  size, \<^verbatim>\<open>SCIPfeatCopy(feat, sourcefeat)\<close> returns; afterwards the second vector,
  \<open>sourcefeat\<close>, has every scalar field and every value of the first, \<open>feat\<close>; the first
  is unchanged, and only the struct and the array of the second were written. Whatever
  is then written to the struct or the array of the first (an assignment to one of its
  values, \<^verbatim>\<open>SCIPfeatSetMaxDepth\<close>, or any other change confined to them) leaves the copy
  as it is.\<close>

theorem SCIPfeatCopy_deep:
  assumes "valid_feat h feat f xs" and "valid_feat h sourcefeat g ys"
    and "size_feat f = size_feat g" and "feat \<noteq> sourcefeat" and "vals f \<noteq> vals g"
  shows "\<exists>h'. SCIPfeatCopy feat sourcefeat h = Inr h'
     \<and> feat_view h' sourcefeat = Some (feat_scalars f, xs)
     \<and> feat_view h' feat = Some (feat_scalars f, xs)
     \<and> feat_view h feat = Some (feat_scalars f, xs)
     \<and> same_except h h' sourcefeat (vals g)
     \<and> (\<forall>h''. same_except h' h'' feat (vals f) \<longrightarrow>
            feat_view h'' sourcefeat = feat_view h' sourcefeat)
     \<and> (\<forall>i v h''. vals_store feat i v h' = Inr h'' \<longrightarrow>
            feat_view h'' sourcefeat = feat_view h' sourcefeat)
     \<and> (\<forall>v h''. SCIPfeatSetMaxDepth feat v h' = Inr h'' \<longrightarrow>
            feat_view h'' sourcefeat = feat_view h' sourcefeat)"
proof -
  let ?g = "g\<lparr>maxdepth := maxdepth f, depth := depth f, size_feat := size_feat f,
               boundtype := boundtype f, rootlpobj := rootlpobj f,
               sumobjcoeff := sumobjcoeff f, nconstrs := nconstrs f\<rparr>"
  let ?h' = "\<lparr>feats = (feats h)(sourcefeat \<mapsto> ?g), arrays = (arrays h)(vals g \<mapsto> xs)\<rparr>"
  from assms(1) have f: "feats h feat = Some f" and xs: "arrays h (vals f) = Some xs"
    by (simp_all add: valid_feat_def)
  have copy: "SCIPfeatCopy feat sourcefeat h = Inr ?h'"
    by (rule SCIPfeatCopy_eq [OF assms])
  have g': "feats ?h' sourcefeat = Some ?g" and f': "feats ?h' feat = Some f"
    using assms(4) f by simp_all
  have dst: "feat_view ?h' sourcefeat = Some (feat_scalars f, xs)"
    by (simp add: feat_view_def feat_scalars_def)
  have src': "feat_view ?h' feat = Some (feat_scalars f, xs)"
    using assms(4,5) f xs by (simp add: feat_view_def)
  have src: "feat_view h feat = Some (feat_scalars f, xs)"
    using f xs by (simp add: feat_view_def)
  have frame: "same_except h ?h' sourcefeat (vals g)"
    by (simp add: same_except_def)
  have later: "feat_view h'' sourcefeat = feat_view ?h' sourcefeat"
    if "same_except ?h' h'' feat (vals f)" for h''
    using that g' assms(4,5) by (intro feat_view_same_except [where g = ?g]) auto
  have store: "feat_view h'' sourcefeat = feat_view ?h' sourcefeat"
    if "vals_store feat i v ?h' = Inr h''" for i v h''
    by (rule later) (rule vals_store_same_except [OF that f'])
  have setter: "feat_view h'' sourcefeat = feat_view ?h' sourcefeat"
    if "SCIPfeatSetMaxDepth feat v ?h' = Inr h''" for v h''
    by (rule later) (rule SCIPfeatSetMaxDepth_same_except [OF that])
  from copy dst src' src frame later store setter show ?thesis
    by blast
qed

text \<open>A vector with the values 5 and 7 copied over a vector of two zeros; then the first
  value of the source is overwritten, and its \<open>maxdepth\<close> is set.\<close>

theorem SCIPfeatCopy_deep_witness:
  "valid_feat
      (heap2 ((feat_of 2 100 25 2 1)\<lparr>rootlpobj := Fin 7, sumobjcoeff := Fin 8, nconstrs := 9\<rparr>)
         [Fin 5, Fin 7] (feat_of 4 0 0 2 0) [Fin 0, Fin 0])
      1 ((feat_of 2 100 25 2 1)\<lparr>rootlpobj := Fin 7, sumobjcoeff := Fin 8, nconstrs := 9\<rparr>)
      [Fin 5, Fin 7]
   \<and> valid_feat
      (heap2 ((feat_of 2 100 25 2 1)\<lparr>rootlpobj := Fin 7, sumobjcoeff := Fin 8, nconstrs := 9\<rparr>)
         [Fin 5, Fin 7] (feat_of 4 0 0 2 0) [Fin 0, Fin 0])
      3 (feat_of 4 0 0 2 0) [Fin 0, Fin 0]
   \<and> (1::addr) \<noteq> 3
   \<and> (\<exists>h'. SCIPfeatCopy 1 3
         (heap2 ((feat_of 2 100 25 2 1)\<lparr>rootlpobj := Fin 7, sumobjcoeff := Fin 8,
                                         nconstrs := 9\<rparr>)
            [Fin 5, Fin 7] (feat_of 4 0 0 2 0) [Fin 0, Fin 0]) = Inr h'
       \<and> feat_view h' 3 = Some ((100, 25, 2, 1, Fin 7, Fin 8, 9), [Fin 5, Fin 7])
       \<and> feat_view h' 1 = Some ((100, 25, 2, 1, Fin 7, Fin 8, 9), [Fin 5, Fin 7])
       \<and> (\<exists>h''. vals_store 1 0 (Fin 99) h' = Inr h''
             \<and> feat_view h'' 1 = Some ((100, 25, 2, 1, Fin 7, Fin 8, 9), [Fin 99, Fin 7])
             \<and> feat_view h'' 3 = Some ((100, 25, 2, 1, Fin 7, Fin 8, 9), [Fin 5, Fin 7]))
       \<and> (\<exists>h''. SCIPfeatSetMaxDepth 1 50 h' = Inr h''
             \<and> feat_view h'' 1 = Some ((50, 25, 2, 1, Fin 7, Fin 8, 9), [Fin 5, Fin 7])
             \<and> feat_view h'' 3 = Some ((100, 25, 2, 1, Fin 7, Fin 8, 9), [Fin 5, Fin 7])))"
proof -
  let ?f = "(feat_of 2 100 25 2 1)\<lparr>rootlpobj := Fin 7, sumobjcoeff := Fin 8, nconstrs := 9\<rparr>"
  let ?g = "feat_of 4 0 0 2 0"
  let ?xs = "[Fin 5, Fin 7]" and ?ys = "[Fin 0, Fin 0]"
  let ?h = "heap2 ?f ?xs ?g ?ys"
  have vf: "valid_feat ?h 1 ?f ?xs" and vg: "valid_feat ?h 3 ?g ?ys"
    by (simp_all add: instance_defs)
  have n: "size_feat ?f = size_feat ?g" and a: "vals ?f \<noteq> vals ?g"
    by (simp_all add: feat_of_def)
  have p: "(1::addr) \<noteq> 3"
    by simp
  from SCIPfeatCopy_deep [OF vf vg n p a]
  obtain h' where copy: "SCIPfeatCopy 1 3 ?h = Inr h'"
    and dst: "feat_view h' 3 = Some (feat_scalars ?f, ?xs)"
    and src: "feat_view h' 1 = Some (feat_scalars ?f, ?xs)"
    and store: "\<And>i v h''. vals_store 1 i v h' = Inr h'' \<Longrightarrow>
            feat_view h'' 3 = feat_view h' 3"
    and setter: "\<And>v h''. SCIPfeatSetMaxDepth 1 v h' = Inr h'' \<Longrightarrow>
            feat_view h'' 3 = feat_view h' 3"
    by blast
  have sc: "feat_scalars ?f = (100, 25, 2, 1, Fin 7, Fin 8, 9)"
    by (simp add: feat_scalars_def feat_of_def)
  from src obtain f' where f': "feats h' 1 = Some f'" and xs': "arrays h' (vals f') = Some ?xs"
    and scf': "feat_scalars f' = feat_scalars ?f"
    by (auto simp: feat_view_def split: option.splits)
  let ?h1 = "h'\<lparr>arrays := (arrays h')(vals f' \<mapsto> ?xs[nat 0 := Fin 99])\<rparr>"
  have st: "vals_store 1 0 (Fin 99) h' = Inr ?h1"
    using f' xs' by (simp add: vals_store_def)
  have v1: "feat_view ?h1 1 = Some ((100, 25, 2, 1, Fin 7, Fin 8, 9), [Fin 99, Fin 7])"
    using f' xs' scf' sc by (simp add: feat_view_def)
  have v3: "feat_view ?h1 3 = Some ((100, 25, 2, 1, Fin 7, Fin 8, 9), [Fin 5, Fin 7])"
    using store [OF st] dst sc by simp
  let ?h2 = "h'\<lparr>feats := (feats h')(1 \<mapsto> f'\<lparr>maxdepth := 50\<rparr>)\<rparr>"
  have se: "SCIPfeatSetMaxDepth 1 50 h' = Inr ?h2"
    using f' by (simp add: SCIPfeatSetMaxDepth_def feat_assign_def NULL_def)
  have w1: "feat_view ?h2 1 = Some ((50, 25, 2, 1, Fin 7, Fin 8, 9), [Fin 5, Fin 7])"
    using f' xs' scf' sc by (simp add: feat_view_def feat_scalars_def)
  have w3: "feat_view ?h2 3 = Some ((100, 25, 2, 1, Fin 7, Fin 8, 9), [Fin 5, Fin 7])"
    using setter [OF se] dst sc by simp
  from dst src sc have "feat_view h' 3 = Some ((100, 25, 2, 1, Fin 7, Fin 8, 9), [Fin 5, Fin 7])"
    and "feat_view h' 1 = Some ((100, 25, 2, 1, Fin 7, Fin 8, 9), [Fin 5, Fin 7])"
    by simp_all
  with copy st v1 v3 se w1 w3 vf vg p show ?thesis
    by blast
qed

end
